theory Spec2Isabelle
  imports Complex_Main
begin

section \<open>Numbers: float64 values with exact finite arithmetic\<close>

text \<open>
  The program computes with numpy \<open>float64\<close> values.  A finite value is modelled by
  the real number it stands for (no rounding, no overflow, one zero); the special
  values \<open>+inf\<close>, \<open>-inf\<close> and \<open>nan\<close> are kept, with the IEEE 754 rules numpy follows,
  because the program divides without a guard and numpy then yields a special value
  (with a warning) instead of raising.  A quotient by zero takes the sign it has for
  the positive zero.  What is proved of the value of a finite sum, product, quotient
  or square root therefore holds of the program where that operation is exact;
  rounding, overflow and underflow of finite values, and with them tolerances, are
  outside this model.
\<close>

datatype fl = Fin real | PInf | MInf | NaN

fun is_fin :: "fl \<Rightarrow> bool" where
  "is_fin (Fin x) = True"
| "is_fin _ = False"

fun fneg :: "fl \<Rightarrow> fl" where
  "fneg (Fin x) = Fin (- x)"
| "fneg PInf = MInf"
| "fneg MInf = PInf"
| "fneg NaN = NaN"

fun fadd :: "fl \<Rightarrow> fl \<Rightarrow> fl" where
  "fadd (Fin x) (Fin y) = Fin (x + y)"
| "fadd NaN _ = NaN"
| "fadd _ NaN = NaN"
| "fadd PInf MInf = NaN"
| "fadd MInf PInf = NaN"
| "fadd PInf _ = PInf"
| "fadd _ PInf = PInf"
| "fadd MInf _ = MInf"
| "fadd _ MInf = MInf"

definition fsub :: "fl \<Rightarrow> fl \<Rightarrow> fl" where
  "fsub a b = fadd a (fneg b)"

fun fmul :: "fl \<Rightarrow> fl \<Rightarrow> fl" where
  "fmul (Fin x) (Fin y) = Fin (x * y)"
| "fmul NaN _ = NaN"
| "fmul _ NaN = NaN"
| "fmul PInf (Fin y) = (if y = 0 then NaN else if 0 < y then PInf else MInf)"
| "fmul MInf (Fin y) = (if y = 0 then NaN else if 0 < y then MInf else PInf)"
| "fmul (Fin x) PInf = (if x = 0 then NaN else if 0 < x then PInf else MInf)"
| "fmul (Fin x) MInf = (if x = 0 then NaN else if 0 < x then MInf else PInf)"
| "fmul PInf PInf = PInf"
| "fmul PInf MInf = MInf"
| "fmul MInf PInf = MInf"
| "fmul MInf MInf = PInf"

fun fdiv :: "fl \<Rightarrow> fl \<Rightarrow> fl" where
  "fdiv (Fin x) (Fin y) =
     (if y = 0 then (if x = 0 then NaN else if 0 < x then PInf else MInf)
      else Fin (x / y))"
| "fdiv NaN _ = NaN"
| "fdiv _ NaN = NaN"
| "fdiv (Fin x) _ = Fin 0"
| "fdiv PInf (Fin y) = (if 0 \<le> y then PInf else MInf)"
| "fdiv MInf (Fin y) = (if 0 \<le> y then MInf else PInf)"
| "fdiv PInf PInf = NaN"
| "fdiv PInf MInf = NaN"
| "fdiv MInf PInf = NaN"
| "fdiv MInf MInf = NaN"

fun fsqrt :: "fl \<Rightarrow> fl" where
  "fsqrt (Fin x) = (if 0 \<le> x then Fin (sqrt x) else NaN)"
| "fsqrt PInf = PInf"
| "fsqrt _ = NaN"

text \<open>\<open>np.minimum\<close> and \<open>np.maximum\<close>, the steps of the \<open>np.min\<close> and \<open>np.max\<close>
  reductions: a \<open>nan\<close> operand wins.\<close>

fun fmin :: "fl \<Rightarrow> fl \<Rightarrow> fl" where
  "fmin (Fin x) (Fin y) = Fin (min x y)"
| "fmin NaN _ = NaN"
| "fmin _ NaN = NaN"
| "fmin MInf _ = MInf"
| "fmin _ MInf = MInf"
| "fmin PInf b = b"
| "fmin a PInf = a"

fun fmax :: "fl \<Rightarrow> fl \<Rightarrow> fl" where
  "fmax (Fin x) (Fin y) = Fin (max x y)"
| "fmax NaN _ = NaN"
| "fmax _ NaN = NaN"
| "fmax PInf _ = PInf"
| "fmax _ PInf = PInf"
| "fmax MInf b = b"
| "fmax a MInf = a"

text \<open>Python truth value of a float: everything but zero, \<open>nan\<close> included.\<close>

definition truthy :: "fl \<Rightarrow> bool" where
  "truthy x = (x \<noteq> Fin 0)"

section \<open>Vectors and matrices of three\<close>

type_synonym vec3 = "fl \<times> fl \<times> fl"

type_synonym mat3 = "vec3 \<times> vec3 \<times> vec3"

definition fin3 :: "real \<times> real \<times> real \<Rightarrow> vec3" where
  "fin3 = (\<lambda>(x, y, z). (Fin x, Fin y, Fin z))"

definition is_fin3 :: "vec3 \<Rightarrow> bool" where
  "is_fin3 = (\<lambda>(x, y, z). is_fin x \<and> is_fin y \<and> is_fin z)"

definition vadd :: "vec3 \<Rightarrow> vec3 \<Rightarrow> vec3" where
  "vadd = (\<lambda>(a0, a1, a2) (b0, b1, b2). (fadd a0 b0, fadd a1 b1, fadd a2 b2))"

definition vsub :: "vec3 \<Rightarrow> vec3 \<Rightarrow> vec3" where
  "vsub = (\<lambda>(a0, a1, a2) (b0, b1, b2). (fsub a0 b0, fsub a1 b1, fsub a2 b2))"

definition vneg :: "vec3 \<Rightarrow> vec3" where
  "vneg = (\<lambda>(a0, a1, a2). (fneg a0, fneg a1, fneg a2))"

definition vscale :: "vec3 \<Rightarrow> fl \<Rightarrow> vec3" where
  "vscale = (\<lambda>(a0, a1, a2) k. (fmul a0 k, fmul a1 k, fmul a2 k))"

definition vdivs :: "vec3 \<Rightarrow> fl \<Rightarrow> vec3" where
  "vdivs = (\<lambda>(a0, a1, a2) k. (fdiv a0 k, fdiv a1 k, fdiv a2 k))"

text \<open>\<open>np.dot\<close> of two vectors, \<open>np.linalg.norm\<close> and \<open>np.cross\<close>.\<close>

definition dot :: "vec3 \<Rightarrow> vec3 \<Rightarrow> fl" where
  "dot = (\<lambda>(a0, a1, a2) (b0, b1, b2).
     fadd (fadd (fmul a0 b0) (fmul a1 b1)) (fmul a2 b2))"

definition norm3 :: "vec3 \<Rightarrow> fl" where
  "norm3 v = fsqrt (dot v v)"

definition cross :: "vec3 \<Rightarrow> vec3 \<Rightarrow> vec3" where
  "cross = (\<lambda>(a0, a1, a2) (b0, b1, b2).
     (fsub (fmul a1 b2) (fmul a2 b1),
      fsub (fmul a2 b0) (fmul a0 b2),
      fsub (fmul a0 b1) (fmul a1 b0)))"

definition any3 :: "vec3 \<Rightarrow> bool" where
  "any3 = (\<lambda>(v0, v1, v2). truthy v0 \<or> truthy v1 \<or> truthy v2)"

definition eye3 :: mat3 where
  "eye3 = ((Fin 1, Fin 0, Fin 0), (Fin 0, Fin 1, Fin 0), (Fin 0, Fin 0, Fin 1))"

definition madd :: "mat3 \<Rightarrow> mat3 \<Rightarrow> mat3" where
  "madd = (\<lambda>(r0, r1, r2) (s0, s1, s2). (vadd r0 s0, vadd r1 s1, vadd r2 s2))"

definition mscale :: "mat3 \<Rightarrow> fl \<Rightarrow> mat3" where
  "mscale = (\<lambda>(r0, r1, r2) k. (vscale r0 k, vscale r1 k, vscale r2 k))"

definition col0 :: "mat3 \<Rightarrow> vec3" where
  "col0 = (\<lambda>((a, _, _), (b, _, _), (c, _, _)). (a, b, c))"

definition col1 :: "mat3 \<Rightarrow> vec3" where
  "col1 = (\<lambda>((_, a, _), (_, b, _), (_, c, _)). (a, b, c))"

definition col2 :: "mat3 \<Rightarrow> vec3" where
  "col2 = (\<lambda>((_, _, a), (_, _, b), (_, _, c)). (a, b, c))"

text \<open>Matrix times column vector, and row vector times matrix (\<open>np.dot(v, m)\<close>).\<close>

definition matvec :: "mat3 \<Rightarrow> vec3 \<Rightarrow> vec3" where
  "matvec = (\<lambda>(r0, r1, r2) v. (dot r0 v, dot r1 v, dot r2 v))"

definition vecmat :: "vec3 \<Rightarrow> mat3 \<Rightarrow> vec3" where
  "vecmat v m = (dot v (col0 m), dot v (col1 m), dot v (col2 m))"

definition mmul :: "mat3 \<Rightarrow> mat3 \<Rightarrow> mat3" where
  "mmul = (\<lambda>(r0, r1, r2) m. (vecmat r0 m, vecmat r1 m, vecmat r2 m))"

section \<open>The Rotation Builder\<close>

text \<open>\<open>rotation_matrix_from_vectors\<close>, lines 10 to 22.  \<open>unit3\<close> is the
  expression \<open>vec / np.linalg.norm(vec)\<close> of lines 11 to 13.\<close>

definition unit3 :: "vec3 \<Rightarrow> vec3" where
  "unit3 v = vdivs v (norm3 v)"

definition kmat_of :: "vec3 \<Rightarrow> mat3" where
  "kmat_of = (\<lambda>(v0, v1, v2).
     ((Fin 0, fneg v2, v1), (v2, Fin 0, fneg v0), (fneg v1, v0, Fin 0)))"

definition rotation_matrix_from_vectors :: "vec3 \<Rightarrow> vec3 \<Rightarrow> mat3" where
  "rotation_matrix_from_vectors vec1 vec2 =
     (let a = unit3 vec1; b = unit3 vec2;
          v = cross a b
      in if any3 v then
           (let c = dot a b;
                s = norm3 v;
                kmat = kmat_of v
            in madd (madd eye3 kmat)
                 (mscale (mmul kmat kmat) (fdiv (fsub (Fin 1) c) (fmul s s))))
         else eye3)"

section \<open>Meshes and normalisation\<close>

datatype error = ValueError | IndexError | LibraryError string

record mesh =
  vertices :: "vec3 list"
  faces :: "(nat \<times> nat \<times> nat) list"

text \<open>\<open>np.min(mesh.vertices, axis=0)\<close> and \<open>np.max(mesh.vertices, axis=0)\<close>: the
  reduction of an array with no row raises \<open>ValueError\<close>.\<close>

definition vmin :: "vec3 \<Rightarrow> vec3 \<Rightarrow> vec3" where
  "vmin = (\<lambda>(a0, a1, a2) (b0, b1, b2). (fmin a0 b0, fmin a1 b1, fmin a2 b2))"

definition vmax :: "vec3 \<Rightarrow> vec3 \<Rightarrow> vec3" where
  "vmax = (\<lambda>(a0, a1, a2) (b0, b1, b2). (fmax a0 b0, fmax a1 b1, fmax a2 b2))"

fun np_min_axis0 :: "vec3 list \<Rightarrow> error + vec3" where
  "np_min_axis0 [] = Inl ValueError"
| "np_min_axis0 (v # vs) = Inr (foldl vmin v vs)"

fun np_max_axis0 :: "vec3 list \<Rightarrow> error + vec3" where
  "np_max_axis0 [] = Inl ValueError"
| "np_max_axis0 (v # vs) = Inr (foldl vmax v vs)"

definition np_max3 :: "vec3 \<Rightarrow> fl" where
  "np_max3 = (\<lambda>(a0, a1, a2). fmax (fmax a0 a1) a2)"

text \<open>\<open>normalize_mesh\<close>, lines 25 to 38.  The source updates \<open>mesh.vertices\<close> in
  place and returns the same object; the model returns the mesh as it is left.\<close>

definition normalize_mesh :: "mesh \<Rightarrow> error + (mesh \<times> vec3 \<times> fl)" where
  "normalize_mesh m =
     (case np_min_axis0 (vertices m) of
        Inl e \<Rightarrow> Inl e
      | Inr mesh_min \<Rightarrow>
     (case np_max_axis0 (vertices m) of
        Inl e \<Rightarrow> Inl e
      | Inr mesh_max \<Rightarrow>
          (let size = vsub mesh_max mesh_min;
               translation = vadd (vdivs size (Fin 2)) mesh_min;
               vs1 = map (\<lambda>v. vsub v translation) (vertices m);
               scale = fdiv (Fin 1) (np_max3 size);
               vs2 = map (\<lambda>v. vscale v (fdiv (Fin 1) (np_max3 size))) vs1
           in Inr (m\<lparr>vertices := vs2\<rparr>, translation, scale))))"

text \<open>Undoing the normalisation, lines 134 and 135.\<close>

definition undo_normalization :: "vec3 list \<Rightarrow> vec3 \<Rightarrow> fl \<Rightarrow> vec3 list" where
  "undo_normalization vs translation scale =
     map (\<lambda>v. vadd v translation) (map (\<lambda>v. vscale v (fdiv (Fin 1) scale)) vs)"

section \<open>The Component Selector\<close>

text \<open>\<open>np.argmax\<close> of a list of counts: the index of the first greatest entry;
  \<open>ValueError\<close> on an empty list.\<close>

fun argmax_from :: "nat \<Rightarrow> nat \<Rightarrow> nat \<Rightarrow> nat list \<Rightarrow> nat" where
  "argmax_from best bi i [] = bi"
| "argmax_from best bi i (x # xs) =
     (if best < x then argmax_from x i (Suc i) xs else argmax_from best bi (Suc i) xs)"

fun np_argmax :: "nat list \<Rightarrow> error + nat" where
  "np_argmax [] = Inl ValueError"
| "np_argmax (x # xs) = Inr (argmax_from x 0 1 xs)"

text \<open>Line 126: \<open>new_mesh[np.argmax([m.vertices.shape[0] for m in new_mesh])]\<close>.\<close>

definition select_largest :: "mesh list \<Rightarrow> error + mesh" where
  "select_largest comps =
     (case np_argmax (map (\<lambda>m. length (vertices m)) comps) of
        Inl e \<Rightarrow> Inl e
      | Inr i \<Rightarrow> Inr (comps ! i))"

section \<open>The Box Trimmer\<close>

text \<open>The libraries the program calls (\<open>trimesh\<close>, \<open>pyransac3d\<close>, \<open>pymeshfix\<close>) are
  not part of it: their functions are parameters of the model, each with an error
  result so that a raising call is a value.  A slicer takes the mesh, the plane
  normal and the plane origin, as \<open>trimesh.intersections.slice_mesh_plane\<close> does.\<close>

type_synonym slicer = "mesh \<Rightarrow> vec3 \<Rightarrow> vec3 \<Rightarrow> error + mesh"

text \<open>\<open>discard_extraneous\<close>, lines 41 to 62: the zipped lists of plane origins and plane
  normals, and the loop over them.\<close>

definition box_planes :: "fl \<Rightarrow> (vec3 \<times> vec3) list" where
  "box_planes bbx = zip
     [(bbx, Fin 0, Fin 0),
      (fneg bbx, Fin 0, Fin 0),
      (Fin 0, bbx, Fin 0),
      (Fin 0, fneg bbx, Fin 0),
      (Fin 0, Fin 0, bbx),
      (Fin 0, Fin 0, fneg bbx)]
     [(Fin (- 1), Fin 0, Fin 0),
      (Fin 1, Fin 0, Fin 0),
      (Fin 0, Fin (- 1), Fin 0),
      (Fin 0, Fin 1, Fin 0),
      (Fin 0, Fin 0, Fin (- 1)),
      (Fin 0, Fin 0, Fin 1)]"

fun slice_all :: "slicer \<Rightarrow> mesh \<Rightarrow> (vec3 \<times> vec3) list \<Rightarrow> error + mesh" where
  "slice_all sl m [] = Inr m"
| "slice_all sl m ((p, n) # ps) =
     (case sl m n p of Inl e \<Rightarrow> Inl e | Inr m' \<Rightarrow> slice_all sl m' ps)"

definition discard_extraneous :: "slicer \<Rightarrow> mesh \<Rightarrow> fl \<Rightarrow> error + mesh" where
  "discard_extraneous sl m bbx = slice_all sl m (box_planes bbx)"

section \<open>The pipeline\<close>

record lib =
  trimesh_fix_winding :: "mesh \<Rightarrow> error + mesh"
  pyrsc_plane_fit :: "vec3 list \<Rightarrow> fl \<Rightarrow> error + fl list"
  trimesh_slice_mesh_plane :: slicer
  trimesh_split :: "mesh \<Rightarrow> error + mesh list"
  meshfix_repair :: "mesh \<Rightarrow> error + mesh"

text \<open>The keyword parameters of \<open>remove_plane\<close> (lines 65 to 76) and their default
  values.  The parameter \<open>normalize\<close> is the field \<open>normalize_opt\<close>.\<close>

record config =
  ransac_threshold :: fl
  plane_offset :: fl
  trim_amount :: fl
  fix_winding :: bool
  reorient :: bool
  normalize_opt :: bool
  keep_largest :: bool
  close_holes :: bool
  verbose :: bool

definition remove_plane_defaults :: config where
  "remove_plane_defaults =
     \<lparr>ransac_threshold = Fin (1 / 100), plane_offset = Fin (5 / 1000), trim_amount = Fin (6 / 10),
      fix_winding = True, reorient = True, normalize_opt = True, keep_largest = True,
      close_holes = True, verbose = False\<rparr>"

text \<open>The command line, lines 148 to 226: the parsed arguments with the defaults of
  the parser, and the keyword arguments the script passes to \<open>remove_plane\<close>.\<close>

record args =
  arg_normalize :: bool
  arg_no_reorient :: bool
  arg_no_close_holes :: bool
  arg_no_fix_winding :: bool
  arg_keep_all :: bool
  arg_verbose :: bool
  arg_ransac_threshold :: fl
  arg_plane_offset :: fl
  arg_trim :: fl

definition parser_defaults :: args where
  "parser_defaults =
     \<lparr>arg_normalize = False, arg_no_reorient = False, arg_no_close_holes = False,
      arg_no_fix_winding = False, arg_keep_all = False, arg_verbose = False,
      arg_ransac_threshold = Fin (1 / 100), arg_plane_offset = Fin (5 / 1000),
      arg_trim = Fin (6 / 10)\<rparr>"

definition config_of_args :: "args \<Rightarrow> config" where
  "config_of_args a =
     \<lparr>ransac_threshold = arg_ransac_threshold a, plane_offset = arg_plane_offset a,
      trim_amount = arg_trim a,
      fix_winding = (\<not> arg_no_fix_winding a), reorient = (\<not> arg_no_reorient a),
      normalize_opt = arg_normalize a, keep_largest = (\<not> arg_keep_all a),
      close_holes = (\<not> arg_no_close_holes a), verbose = arg_verbose a\<rparr>"

text \<open>Lines 98 to 100, the conversion to point-normal form.  \<open>best_eq[:3]\<close> and the
  division of line 99 raise nothing; \<open>best_eq[3]\<close> raises \<open>IndexError\<close> on a list of
  fewer than four entries.  The entries are numpy scalars, so the division of line
  100 raises nothing either.\<close>

fun to_point_normal :: "fl list \<Rightarrow> error + (vec3 \<times> vec3)" where
  "to_point_normal (a # b # c # d # rest) =
     (let n = (a, b, c);
          n = vdivs n (dot n n);
          p = (Fin 0, Fin 0, fneg (fdiv d c))
      in Inr (n, p))"
| "to_point_normal _ = Inl IndexError"

text \<open>Lines 95 to 121: plane fit, orientation probe, rotation, offset cut and box
  trim.  The result is the trimmed mesh and the rotation \<open>rot_m\<close>.\<close>

definition cut_and_trim :: "lib \<Rightarrow> config \<Rightarrow> mesh \<Rightarrow> nat \<Rightarrow> error + (mesh \<times> mat3)" where
  "cut_and_trim l cfg m orig_num_pts =
     (case pyrsc_plane_fit l (vertices m) (ransac_threshold cfg) of
        Inl e \<Rightarrow> Inl e
      | Inr best_eq \<Rightarrow>
     (case to_point_normal best_eq of
        Inl e \<Rightarrow> Inl e
      | Inr (n, p) \<Rightarrow>
     (case trimesh_slice_mesh_plane l m n p of
        Inl e \<Rightarrow> Inl e
      | Inr probe \<Rightarrow>
          (let n = (if real (length (vertices probe)) < real orig_num_pts * (1 / 2)
                    then vneg n else n);
               rot_m = rotation_matrix_from_vectors (Fin 0, Fin 1, Fin 0) n;
               p_cur = vadd p (vscale n (plane_offset cfg))
           in (case trimesh_slice_mesh_plane l m n p_cur of
                 Inl e \<Rightarrow> Inl e
               | Inr new_mesh \<Rightarrow>
              (case discard_extraneous (trimesh_slice_mesh_plane l) new_mesh
                      (fdiv (trim_amount cfg) (Fin 2)) of
                 Inl e \<Rightarrow> Inl e
               | Inr new_mesh \<Rightarrow> Inr (new_mesh, rot_m)))))))"

text \<open>Lines 124 to 126, the component selection.\<close>

definition component_stage :: "lib \<Rightarrow> config \<Rightarrow> mesh \<Rightarrow> error + mesh" where
  "component_stage l cfg new_mesh =
     (if keep_largest cfg then
        (case trimesh_split l new_mesh of
           Inl e \<Rightarrow> Inl e
         | Inr comps \<Rightarrow> select_largest comps)
      else Inr new_mesh)"

text \<open>Lines 129 and 130, lines 133 to 135, lines 138 to 143.\<close>

definition reorient_stage :: "config \<Rightarrow> mat3 \<Rightarrow> vec3 list \<Rightarrow> vec3 list" where
  "reorient_stage cfg rot_m vs = (if reorient cfg then map (\<lambda>v. vecmat v rot_m) vs else vs)"

definition denormalize_stage :: "config \<Rightarrow> vec3 \<Rightarrow> fl \<Rightarrow> vec3 list \<Rightarrow> vec3 list" where
  "denormalize_stage cfg translation scale vs =
     (if \<not> normalize_opt cfg then undo_normalization vs translation scale else vs)"

definition close_stage :: "lib \<Rightarrow> config \<Rightarrow> mesh \<Rightarrow> error + mesh" where
  "close_stage l cfg new_mesh = (if close_holes cfg then meshfix_repair l new_mesh else Inr new_mesh)"

text \<open>Lines 92 to 145: everything after the normalisation.  These lines read the
  normalised input mesh and work on meshes the libraries build; the value returned
  is the mesh object of line 145.\<close>

definition clean_normalized ::
  "lib \<Rightarrow> config \<Rightarrow> mesh \<Rightarrow> nat \<Rightarrow> vec3 \<Rightarrow> fl \<Rightarrow> error + mesh" where
  "clean_normalized l cfg m orig_num_pts translation scale =
     (case cut_and_trim l cfg m orig_num_pts of
        Inl e \<Rightarrow> Inl e
      | Inr (trimmed, rot_m) \<Rightarrow>
     (case component_stage l cfg trimmed of
        Inl e \<Rightarrow> Inl e
      | Inr new_mesh \<Rightarrow>
          close_stage l cfg
            (new_mesh\<lparr>vertices :=
               denormalize_stage cfg translation scale
                 (reorient_stage cfg rot_m (vertices new_mesh))\<rparr>)))"

text \<open>\<open>remove_plane\<close>, lines 65 to 145, over a store of mesh objects: a reference is
  an index into the store.  The winding fix and the normalisation write to the
  caller's object; the mesh returned is a new object, put at the end of the store.
  The printing under \<open>verbose\<close> changes nothing and is left out.\<close>

type_synonym store = "mesh list"

definition remove_plane :: "lib \<Rightarrow> config \<Rightarrow> store \<Rightarrow> nat \<Rightarrow> (error + nat) \<times> store" where
  "remove_plane l cfg st r =
     (case (if fix_winding cfg then trimesh_fix_winding l (st ! r) else Inr (st ! r)) of
        Inl e \<Rightarrow> (Inl e, st)
      | Inr m0 \<Rightarrow>
          (let st0 = st[r := m0];
               orig_num_pts = length (vertices m0)
           in (case normalize_mesh m0 of
                 Inl e \<Rightarrow> (Inl e, st0)
               | Inr (m1, translation, scale) \<Rightarrow>
                   (let st1 = st0[r := m1]
                    in (case clean_normalized l cfg m1 orig_num_pts translation scale of
                          Inl e \<Rightarrow> (Inl e, st1)
                        | Inr new_mesh \<Rightarrow> (Inr (length st1), st1 @ [new_mesh]))))))"

section \<open>Auxiliary notions for the proofs\<close>

text \<open>Real triples: dot and cross product, scaling, the unit vector.\<close>

type_synonym rvec = "real \<times> real \<times> real"

definition rdot :: "rvec \<Rightarrow> rvec \<Rightarrow> real" where
  "rdot = (\<lambda>(a0, a1, a2) (b0, b1, b2). a0 * b0 + a1 * b1 + a2 * b2)"

definition rcross :: "rvec \<Rightarrow> rvec \<Rightarrow> rvec" where
  "rcross = (\<lambda>(a0, a1, a2) (b0, b1, b2).
     (a1 * b2 - a2 * b1, a2 * b0 - a0 * b2, a0 * b1 - a1 * b0))"

definition rscale :: "rvec \<Rightarrow> real \<Rightarrow> rvec" where
  "rscale = (\<lambda>(a0, a1, a2) k. (a0 * k, a1 * k, a2 * k))"

definition runit :: "rvec \<Rightarrow> rvec" where
  "runit a = rscale a (1 / sqrt (rdot a a))"

text \<open>Componentwise minimum, maximum and order of real triples.\<close>

definition rmin3 :: "real \<times> real \<times> real \<Rightarrow> real \<times> real \<times> real \<Rightarrow> real \<times> real \<times> real" where
  "rmin3 = (\<lambda>(a0, a1, a2) (b0, b1, b2). (min a0 b0, min a1 b1, min a2 b2))"

definition rmax3 :: "real \<times> real \<times> real \<Rightarrow> real \<times> real \<times> real \<Rightarrow> real \<times> real \<times> real" where
  "rmax3 = (\<lambda>(a0, a1, a2) (b0, b1, b2). (max a0 b0, max a1 b1, max a2 b2))"

definition le3 :: "real \<times> real \<times> real \<Rightarrow> real \<times> real \<times> real \<Rightarrow> bool" where
  "le3 = (\<lambda>(a0, a1, a2) (b0, b1, b2). a0 \<le> b0 \<and> a1 \<le> b1 \<and> a2 \<le> b2)"

definition two_point_mesh :: mesh where
  "two_point_mesh = \<lparr>vertices = map fin3 [(0, 0, 0), (2, 0, 0)], faces = []\<rparr>"

text \<open>The order of float64 values (\<open>nan\<close> compares false), the coordinates of a
  vertex, and the box \<open>[-h-e, h+e]\<^sup>3\<close>.\<close>

fun fle :: "fl \<Rightarrow> fl \<Rightarrow> bool" where
  "fle (Fin x) (Fin y) = (x \<le> y)"
| "fle NaN _ = False"
| "fle _ NaN = False"
| "fle MInf _ = True"
| "fle _ PInf = True"
| "fle PInf (Fin y) = False"
| "fle PInf MInf = False"
| "fle (Fin x) MInf = False"

definition coord :: "nat \<Rightarrow> vec3 \<Rightarrow> fl" where
  "coord i = (\<lambda>(x, y, z). if i = 0 then x else if i = 1 then y else z)"

definition within_box :: "real \<Rightarrow> real \<Rightarrow> vec3 \<Rightarrow> bool" where
  "within_box h e v =
     (fle (Fin (- h - e)) (coord 0 v) \<and> fle (coord 0 v) (Fin (h + e)) \<and>
      fle (Fin (- h - e)) (coord 1 v) \<and> fle (coord 1 v) (Fin (h + e)) \<and>
      fle (Fin (- h - e)) (coord 2 v) \<and> fle (coord 2 v) (Fin (h + e)))"

text \<open>The contract of the Plane Slicer, a library function: every vertex of the result
  satisfies \<open>n\<cdot>(v - p) \<ge> -\<epsilon>\<close>, and a bound that holds for a coordinate of all
  vertices of the input holds for it in the result (the new vertices of a cut lie
  on edges of the input).\<close>

definition slicer_halfspace :: "fl \<Rightarrow> slicer \<Rightarrow> bool" where
  "slicer_halfspace eps sl =
     (\<forall>m n p m'. sl m n p = Inr m' \<longrightarrow>
        (\<forall>v \<in> set (vertices m'). fle (fneg eps) (dot n (vsub v p))))"

definition slicer_keeps_upper :: "slicer \<Rightarrow> bool" where
  "slicer_keeps_upper sl =
     (\<forall>m n p m' i hi. sl m n p = Inr m' \<longrightarrow>
        (\<forall>v \<in> set (vertices m). fle (coord i v) hi) \<longrightarrow>
        (\<forall>v \<in> set (vertices m'). fle (coord i v) hi))"

definition slicer_keeps_lower :: "slicer \<Rightarrow> bool" where
  "slicer_keeps_lower sl =
     (\<forall>m n p m' i lo. sl m n p = Inr m' \<longrightarrow>
        (\<forall>v \<in> set (vertices m). fle lo (coord i v)) \<longrightarrow>
        (\<forall>v \<in> set (vertices m'). fle lo (coord i v)))"

text \<open>The stages of a run up to the component selection, with the values they pass on:
  the mesh after the winding fix, the normalised mesh, translation and scale, the
  rotation and the selected component.\<close>

definition pipeline_trace ::
  "lib \<Rightarrow> config \<Rightarrow> store \<Rightarrow> nat \<Rightarrow> mesh \<Rightarrow> mesh \<Rightarrow> vec3 \<Rightarrow> fl \<Rightarrow> mat3 \<Rightarrow> mesh \<Rightarrow> bool" where
  "pipeline_trace l cfg st r m0 m1 t s rot_m sel =
     ((if fix_winding cfg then trimesh_fix_winding l (st ! r) else Inr (st ! r)) = Inr m0
      \<and> normalize_mesh m0 = Inr (m1, t, s)
      \<and> (\<exists>trimmed. cut_and_trim l cfg m1 (length (vertices m0)) = Inr (trimmed, rot_m)
             \<and> component_stage l cfg trimmed = Inr sel))"

section \<open>Sample inputs\<close>

text \<open>A slicer for the sample runs: it keeps the vertices on the side of the normal
  and the faces whose three vertices are kept, renumbered.\<close>

definition inside :: "vec3 \<Rightarrow> vec3 \<Rightarrow> vec3 \<Rightarrow> bool" where
  "inside n p v = fle (Fin 0) (dot n (vsub v p))"

definition cull_slicer :: slicer where
  "cull_slicer m n p =
     (let keep = map (inside n p) (vertices m);
          newidx = (\<lambda>i. length (filter id (take i keep)))
      in Inr \<lparr>vertices = filter (inside n p) (vertices m),
              faces = map (\<lambda>(a, b, c). (newidx a, newidx b, newidx c))
                        (filter (\<lambda>(a, b, c). a < length keep \<and> b < length keep \<and> c < length keep
                                   \<and> keep ! a \<and> keep ! b \<and> keep ! c) (faces m))\<rparr>)"

definition wide_mesh :: mesh where
  "wide_mesh = \<lparr>vertices = map fin3 [(0, 0, 0), (1 / 4, 0, 0), (0, 1 / 4, 0), (2, 0, 0)],
                 faces = [(0, 1, 2), (1, 2, 3)]\<rparr>"

definition comp_a :: mesh where
  "comp_a = \<lparr>vertices = [(Fin 0, Fin 0, Fin 0)], faces = []\<rparr>"

definition comp_b :: mesh where
  "comp_b = \<lparr>vertices = [(Fin 0, Fin 0, Fin 0), (Fin 1, Fin 0, Fin 0)], faces = []\<rparr>"

definition comp_c :: mesh where
  "comp_c = \<lparr>vertices = [(Fin 0, Fin 1, Fin 0), (Fin 1, Fin 1, Fin 0)], faces = []\<rparr>"

text \<open>Library functions for the sample runs: the plane fit answers the plane
  \<open>z = -1/4\<close>, the split gives the mesh itself when it has a face and no component
  otherwise, winding fix and repair change nothing.  In \<open>strict_lib\<close> the fit answers
  the plane \<open>y = -1/4\<close> and the slicer raises on a plane origin that is not finite.\<close>

definition sample_lib :: lib where
  "sample_lib =
     \<lparr>trimesh_fix_winding = Inr,
      pyrsc_plane_fit = (\<lambda>vs thresh. if length vs < 3 then Inl ValueError
                                       else Inr [Fin 0, Fin 0, Fin 1, Fin (1 / 4)]),
      trimesh_slice_mesh_plane = cull_slicer,
      trimesh_split = (\<lambda>m. Inr (if faces m = [] then [] else [m])),
      meshfix_repair = Inr\<rparr>"

definition centered_mesh :: mesh where
  "centered_mesh =
     \<lparr>vertices = map fin3 [(- 1 / 2, 0, 0), (1 / 2, 0, 0), (0, 1 / 4, 1 / 8), (0, - 1 / 4, - 1 / 8)],
      faces = [(0, 1, 2), (0, 1, 3)]\<rparr>"

definition shifted_mesh :: mesh where
  "shifted_mesh =
     \<lparr>vertices = map fin3 [(19 / 2, 0, 0), (21 / 2, 0, 0), (10, 1 / 4, 1 / 8), (10, - 1 / 4, - 1 / 8)],
      faces = [(0, 1, 2), (0, 1, 3)]\<rparr>"

definition point_mesh :: mesh where
  "point_mesh = \<lparr>vertices = [fin3 (1, 2, 3)], faces = []\<rparr>"

definition wide_config :: config where
  "wide_config = remove_plane_defaults\<lparr>trim_amount := Fin 2\<rparr>"

definition turned_mesh :: mesh where
  "turned_mesh =
     \<lparr>vertices = map fin3 [(- 1 / 2, 0, 0), (1 / 2, 0, 0), (0, 1 / 8, - 1 / 4), (0, - 1 / 8, 1 / 4)],
      faces = [(0, 1, 2), (0, 1, 3)]\<rparr>"

definition empty_mesh :: mesh where
  "empty_mesh = \<lparr>vertices = [], faces = []\<rparr>"

definition remnant_mesh :: mesh where
  "remnant_mesh = \<lparr>vertices = map fin3 [(0, 1 / 8, - 1 / 4), (0, - 1 / 8, 1 / 4)], faces = []\<rparr>"

definition keep_all_config :: config where
  "keep_all_config = remove_plane_defaults\<lparr>keep_largest := False\<rparr>"

definition strict_lib :: lib where
  "strict_lib = sample_lib
     \<lparr>pyrsc_plane_fit := (\<lambda>vs thresh. Inr [Fin 0, Fin 1, Fin 0, Fin (1 / 4)]),
      trimesh_slice_mesh_plane := (\<lambda>m n p. if is_fin3 p then cull_slicer m n p
                                            else Inl (LibraryError ''plane origin''))\<rparr>"

text \<open>A configuration that undoes the normalisation, and a scan with an outlying
  edge: normalised, trimmed, upright, and back in the coordinates of the input.\<close>

definition undo_config :: config where
  "undo_config = wide_config\<lparr>normalize_opt := False\<rparr>"

definition restored_mesh :: mesh where
  "restored_mesh =
     \<lparr>vertices = map fin3 [(19 / 2, 0, 0), (21 / 2, 0, 0), (10, 1 / 8, - 1 / 4), (10, - 1 / 8, 1 / 4)],
      faces = [(0, 1, 2), (0, 1, 3)]\<rparr>"

definition scan_mesh :: mesh where
  "scan_mesh =
     \<lparr>vertices = map fin3 [(0, 0, 0), (2, 0, 0), (1, 0, 0), (3 / 2, 0, 0), (1, 1 / 2, 0)],
      faces = [(2, 3, 4), (0, 1, 2)]\<rparr>"

definition scan_norm :: mesh where
  "scan_norm =
     \<lparr>vertices = map fin3 [(- 1 / 2, - 1 / 8, 0), (1 / 2, - 1 / 8, 0), (0, - 1 / 8, 0),
                            (1 / 4, - 1 / 8, 0), (0, 1 / 8, 0)],
      faces = [(2, 3, 4), (0, 1, 2)]\<rparr>"

definition scan_cut :: mesh where
  "scan_cut =
     \<lparr>vertices = map fin3 [(0, - 1 / 8, 0), (1 / 4, - 1 / 8, 0), (0, 1 / 8, 0)],
      faces = [(0, 1, 2)]\<rparr>"

definition scan_upright :: mesh where
  "scan_upright =
     \<lparr>vertices = map fin3 [(0, 0, 1 / 8), (1 / 4, 0, 1 / 8), (0, 0, - 1 / 8)],
      faces = [(0, 1, 2)]\<rparr>"

definition scan_restored :: mesh where
  "scan_restored =
     \<lparr>vertices = map fin3 [(1, 1 / 4, 1 / 4), (3 / 2, 1 / 4, 1 / 4), (1, 1 / 4, - 1 / 4)],
      faces = [(0, 1, 2)]\<rparr>"

section \<open>Properties\<close>

subsection \<open>Rotation Builder\<close>

lemma dot_fin3: "dot (fin3 a) (fin3 b) = Fin (rdot a b)"
  by (cases a, cases b) (simp add: dot_def fin3_def rdot_def)

lemma cross_fin3: "cross (fin3 a) (fin3 b) = fin3 (rcross a b)"
  by (cases a, cases b) (simp add: cross_def fin3_def rcross_def fsub_def)

lemma any3_fin3: "any3 (fin3 a) \<longleftrightarrow> a \<noteq> (0, 0, 0)"
  by (cases a) (auto simp add: any3_def fin3_def truthy_def)

lemma rdot_self_pos: "a \<noteq> (0, 0, 0) \<Longrightarrow> 0 < rdot a a"
proof (cases a)
  case (fields a0 a1 a2)
  assume "a \<noteq> (0, 0, 0)"
  then have "a0 \<noteq> 0 \<or> a1 \<noteq> 0 \<or> a2 \<noteq> 0" using fields by simp
  then have "0 < a0 * a0 + a1 * a1 + a2 * a2"
    by (metis add_pos_nonneg add_nonneg_pos zero_le_square not_real_square_gt_zero add_nonneg_nonneg)
  then show ?thesis by (simp add: fields rdot_def)
qed

lemma rdot_rscale: "rdot (rscale a k) (rscale b l) = k * l * rdot a b"
  by (cases a, cases b) (simp add: rdot_def rscale_def algebra_simps)

lemma rcross_rscale: "rcross (rscale a k) (rscale b l) = rscale (rcross a b) (k * l)"
  by (cases a, cases b) (simp add: rcross_def rscale_def algebra_simps)

lemma rscale_zero_iff: "k \<noteq> 0 \<Longrightarrow> rscale a k = (0, 0, 0) \<longleftrightarrow> a = (0, 0, 0)"
  by (cases a) (simp add: rscale_def)

lemma unit3_fin3: "a \<noteq> (0, 0, 0) \<Longrightarrow> unit3 (fin3 a) = fin3 (runit a)"
proof -
  assume nz: "a \<noteq> (0, 0, 0)"
  have p: "0 < rdot a a" using nz by (rule rdot_self_pos)
  then have s: "sqrt (rdot a a) \<noteq> 0" by simp
  have n: "norm3 (fin3 a) = Fin (sqrt (rdot a a))" using p by (simp add: norm3_def dot_fin3)
  obtain a0 a1 a2 where a: "a = (a0, a1, a2)" by (cases a)
  define k where "k = sqrt (rdot a a)"
  have k: "k \<noteq> 0" using s by (simp add: k_def)
  show ?thesis unfolding unit3_def n runit_def k_def [symmetric] using k
    by (simp add: a vdivs_def fin3_def rscale_def)
qed

lemma runit_self: "a \<noteq> (0, 0, 0) \<Longrightarrow> rdot (runit a) (runit a) = 1"
proof -
  assume nz: "a \<noteq> (0, 0, 0)"
  have p: "0 < rdot a a" using nz by (rule rdot_self_pos)
  define q where "q = rdot a a"
  have q: "0 < q" using p by (simp add: q_def)
  have "rdot (runit a) (runit a) = (1 / sqrt q) * (1 / sqrt q) * q"
    unfolding runit_def rdot_rscale q_def ..
  also have "\<dots> = 1" using q by simp
  finally show ?thesis .
qed

lemma rcross_runit:
  assumes "a \<noteq> (0, 0, 0)" "b \<noteq> (0, 0, 0)"
  shows "rcross (runit a) (runit b) = (0, 0, 0) \<longleftrightarrow> rcross a b = (0, 0, 0)"
proof -
  have "1 / sqrt (rdot a a) * (1 / sqrt (rdot b b)) \<noteq> 0"
    using rdot_self_pos [OF assms(1)] rdot_self_pos [OF assms(2)] by simp
  then show ?thesis unfolding runit_def rcross_rscale by (rule rscale_zero_iff)
qed

lemma rot_apply_fin:
  "matvec (madd (madd eye3 (kmat_of (fin3 (v0, v1, v2))))
             (mscale (mmul (kmat_of (fin3 (v0, v1, v2))) (kmat_of (fin3 (v0, v1, v2)))) (Fin t)))
     (fin3 (u0, u1, u2))
   = fin3 ((1 + (- (v2 * v2) - v1 * v1) * t) * u0 + (- v2 + v1 * v0 * t) * u1 + (v1 + v2 * v0 * t) * u2,
           (v2 + v0 * v1 * t) * u0 + (1 + (- (v2 * v2) - v0 * v0) * t) * u1 + (- v0 + v2 * v1 * t) * u2,
           (- v1 + v0 * v2 * t) * u0 + (v0 + v1 * v2 * t) * u1 + (1 + (- (v1 * v1) - v0 * v0) * t) * u2)"
  by (simp add: matvec_def madd_def mscale_def mmul_def kmat_of_def eye3_def fin3_def vadd_def
       vscale_def vecmat_def col0_def col1_def col2_def dot_def algebra_simps)

lemma rodrigues_real:
  fixes u0 u1 u2 w0 w1 w2 t :: real
  assumes uu: "u0 * u0 + u1 * u1 + u2 * u2 = 1"
    and v: "v0 = u1 * w2 - u2 * w1" "v1 = u2 * w0 - u0 * w2" "v2 = u0 * w1 - u1 * w0"
    and t: "t * (v0 * v0 + v1 * v1 + v2 * v2) = 1 - (u0 * w0 + u1 * w1 + u2 * w2)"
  shows "(1 + (- (v2 * v2) - v1 * v1) * t) * u0 + (- v2 + v1 * v0 * t) * u1 + (v1 + v2 * v0 * t) * u2 = w0"
    and "(v2 + v0 * v1 * t) * u0 + (1 + (- (v2 * v2) - v0 * v0) * t) * u1 + (- v0 + v2 * v1 * t) * u2 = w1"
    and "(- v1 + v0 * v2 * t) * u0 + (v0 + v1 * v2 * t) * u1 + (1 + (- (v1 * v1) - v0 * v0) * t) * u2 = w2"
  using uu t unfolding v by algebra+

lemma vscale_fin3: "vscale (fin3 a) (Fin k) = fin3 (rscale a k)"
  by (cases a) (simp add: vscale_def fin3_def rscale_def)

lemma rcross_self_scale: "rcross a (rscale a k) = (0, 0, 0)"
  by (cases a) (simp add: rcross_def rscale_def)

lemma rotation_unfold:
  "rotation_matrix_from_vectors vec1 vec2 =
     (if any3 (cross (unit3 vec1) (unit3 vec2)) then
        madd (madd eye3 (kmat_of (cross (unit3 vec1) (unit3 vec2))))
          (mscale (mmul (kmat_of (cross (unit3 vec1) (unit3 vec2)))
                        (kmat_of (cross (unit3 vec1) (unit3 vec2))))
             (fdiv (fsub (Fin 1) (dot (unit3 vec1) (unit3 vec2)))
                (fmul (norm3 (cross (unit3 vec1) (unit3 vec2)))
                      (norm3 (cross (unit3 vec1) (unit3 vec2))))))
      else eye3)"
  by (simp add: rotation_matrix_from_vectors_def Let_def)

text \<open>
  The Rotation Builder in exact arithmetic.  With finite values computed as real
  numbers, for nonzero \<open>a\<close> and \<open>b\<close>, \<open>v\<close> the cross product and \<open>c\<close> the dot product of the
  normalised inputs: \<open>v\<close> is nonzero exactly when \<open>a\<close> and \<open>b\<close> are not parallel, and then
  the matrix returned is \<open>I + K + K\<cdot>K\<cdot>(1 - c)/(v\<cdot>v)\<close> and maps the normalised \<open>a\<close> to the
  normalised \<open>b\<close>; when \<open>v\<close> is zero the result is the identity.  This is a fact of the
  formula, not of the float64 program: there the products and the square root are
  rounded and can underflow or overflow, so the cross product of parallel inputs
  need not be zero and the matrix can be \<open>nan\<close> for inputs of extreme size.
\<close>

theorem rotation_builder:
  assumes "a \<noteq> (0, 0, 0)" and "b \<noteq> (0, 0, 0)" and "k \<noteq> 0"
  shows "(let ua = unit3 (fin3 a); ub = unit3 (fin3 b); v = cross ua ub; kmat = kmat_of v;
              R = rotation_matrix_from_vectors (fin3 a) (fin3 b)
          in (any3 v \<longleftrightarrow> any3 (cross (fin3 a) (fin3 b)))
           \<and> (any3 v \<longrightarrow> matvec R ua = ub
                 \<and> R = madd (madd eye3 kmat)
                         (mscale (mmul kmat kmat) (fdiv (fsub (Fin 1) (dot ua ub)) (dot v v))))
           \<and> (\<not> any3 v \<longrightarrow> R = eye3))
         \<and> rotation_matrix_from_vectors (fin3 a) (vscale (fin3 a) (Fin k)) = eye3
         \<and> rotation_matrix_from_vectors (fin3 a) (vneg (fin3 a)) = eye3"
proof -
  define u where "u = runit a"
  define w where "w = runit b"
  obtain u0 u1 u2 where u: "u = (u0, u1, u2)" by (cases u)
  obtain w0 w1 w2 where w: "w = (w0, w1, w2)" by (cases w)
  define v0 where "v0 = u1 * w2 - u2 * w1"
  define v1 where "v1 = u2 * w0 - u0 * w2"
  define v2 where "v2 = u0 * w1 - u1 * w0"
  define q where "q = v0 * v0 + v1 * v1 + v2 * v2"
  define c where "c = u0 * w0 + u1 * w1 + u2 * w2"
  define t where "t = (1 - c) / q"
  have ua: "unit3 (fin3 a) = fin3 (u0, u1, u2)" using unit3_fin3 [OF assms(1)] u by (simp add: u_def)
  have ub: "unit3 (fin3 b) = fin3 (w0, w1, w2)" using unit3_fin3 [OF assms(2)] w by (simp add: w_def)
  have uu: "u0 * u0 + u1 * u1 + u2 * u2 = 1"
    using runit_self [OF assms(1)] u by (simp add: u_def rdot_def)
  have cr: "cross (fin3 (u0, u1, u2)) (fin3 (w0, w1, w2)) = fin3 (v0, v1, v2)"
    by (simp add: cross_fin3 rcross_def v0_def v1_def v2_def)
  have rc: "rcross (runit a) (runit b) = (v0, v1, v2)"
    using u w by (simp add: u_def w_def rcross_def v0_def v1_def v2_def)
  have any_iff: "any3 (fin3 (v0, v1, v2)) \<longleftrightarrow> any3 (cross (fin3 a) (fin3 b))"
    using rcross_runit [OF assms(1,2)] by (simp only: cross_fin3 any3_fin3 rc)
  have dt: "dot (fin3 (u0, u1, u2)) (fin3 (w0, w1, w2)) = Fin c"
    by (simp add: dot_fin3 rdot_def c_def)
  have dv: "dot (fin3 (v0, v1, v2)) (fin3 (v0, v1, v2)) = Fin q"
    by (simp add: dot_fin3 rdot_def q_def)
  have q0: "0 \<le> q" by (simp add: q_def)
  have ss: "fmul (norm3 (fin3 (v0, v1, v2))) (norm3 (fin3 (v0, v1, v2))) = Fin q"
    using q0 by (simp add: norm3_def dv)
  have R: "rotation_matrix_from_vectors (fin3 a) (fin3 b) =
     (if any3 (fin3 (v0, v1, v2)) then
        madd (madd eye3 (kmat_of (fin3 (v0, v1, v2))))
          (mscale (mmul (kmat_of (fin3 (v0, v1, v2))) (kmat_of (fin3 (v0, v1, v2))))
             (fdiv (fsub (Fin 1) (Fin c)) (Fin q)))
      else eye3)"
    by (simp only: rotation_unfold ua ub cr dt ss)
  have main: "any3 (fin3 (v0, v1, v2)) \<Longrightarrow>
      matvec (rotation_matrix_from_vectors (fin3 a) (fin3 b)) (fin3 (u0, u1, u2)) = fin3 (w0, w1, w2)"
  proof -
    assume nz: "any3 (fin3 (v0, v1, v2))"
    then have "v0 \<noteq> 0 \<or> v1 \<noteq> 0 \<or> v2 \<noteq> 0" by (simp add: any3_fin3)
    then have "0 < rdot (v0, v1, v2) (v0, v1, v2)" by (intro rdot_self_pos) auto
    then have qpos: "0 < q" by (simp add: rdot_def q_def)
    have tq: "t * (v0 * v0 + v1 * v1 + v2 * v2) = 1 - (u0 * w0 + u1 * w1 + u2 * w2)"
      using qpos by (simp add: t_def q_def [symmetric] c_def [symmetric])
    have fd: "fdiv (fsub (Fin 1) (Fin c)) (Fin q) = Fin t"
      using qpos by (simp add: fsub_def t_def)
    show ?thesis
      unfolding R using nz
      by (simp only: if_True fd rot_apply_fin
            rodrigues_real [OF uu v0_def v1_def v2_def tq])
  qed
  have p1: "(let ua = unit3 (fin3 a); ub = unit3 (fin3 b); v = cross ua ub; kmat = kmat_of v;
              R = rotation_matrix_from_vectors (fin3 a) (fin3 b)
          in (any3 v \<longleftrightarrow> any3 (cross (fin3 a) (fin3 b)))
           \<and> (any3 v \<longrightarrow> matvec R ua = ub
                 \<and> R = madd (madd eye3 kmat)
                         (mscale (mmul kmat kmat) (fdiv (fsub (Fin 1) (dot ua ub)) (dot v v))))
           \<and> (\<not> any3 v \<longrightarrow> R = eye3))"
    unfolding Let_def ua ub cr dt dv using any_iff main R by simp
  have par: "rotation_matrix_from_vectors (fin3 a) (fin3 (rscale a j)) = eye3" if j: "j \<noteq> 0" for j
  proof -
    have nz: "rscale a j \<noteq> (0, 0, 0)" using rscale_zero_iff [OF j] assms(1) by simp
    have "rcross (runit a) (runit (rscale a j)) = (0, 0, 0)"
      using rcross_runit [OF assms(1) nz] by (simp add: rcross_self_scale)
    then have "\<not> any3 (cross (unit3 (fin3 a)) (unit3 (fin3 (rscale a j))))"
      by (simp add: unit3_fin3 [OF assms(1)] unit3_fin3 [OF nz] cross_fin3 any3_fin3)
    then show ?thesis by (simp add: rotation_unfold)
  qed
  have p2: "rotation_matrix_from_vectors (fin3 a) (vscale (fin3 a) (Fin k)) = eye3"
    using par [OF assms(3)] by (simp add: vscale_fin3)
  have "vneg (fin3 a) = fin3 (rscale a (- 1))"
    by (cases a) (simp add: vneg_def fin3_def rscale_def)
  then have p3: "rotation_matrix_from_vectors (fin3 a) (vneg (fin3 a)) = eye3"
    using par [of "- 1"] by simp
  show ?thesis using p1 p2 p3 by blast
qed

theorem rotation_builder_witness:
  "(1::real, 0::real, 0::real) \<noteq> (0, 0, 0) \<and> (0::real, 1::real, 0::real) \<noteq> (0, 0, 0) \<and> (2::real) \<noteq> 0
   \<and> matvec (rotation_matrix_from_vectors (fin3 (1, 0, 0)) (fin3 (0, 1, 0))) (unit3 (fin3 (1, 0, 0)))
       = unit3 (fin3 (0, 1, 0))
   \<and> rotation_matrix_from_vectors (fin3 (1, 0, 0)) (fin3 (0, 1, 0))
       = ((Fin 0, Fin (- 1), Fin 0), (Fin 1, Fin 0, Fin 0), (Fin 0, Fin 0, Fin 1))
   \<and> rotation_matrix_from_vectors (fin3 (1, 0, 0)) (vscale (fin3 (1, 0, 0)) (Fin 2)) = eye3
   \<and> rotation_matrix_from_vectors (fin3 (1, 0, 0)) (vneg (fin3 (1, 0, 0))) = eye3"
proof -
  have v: "any3 (cross (unit3 (fin3 (1, 0, 0))) (unit3 (fin3 (0, 1, 0))))"
    by (simp add: any3_def cross_def unit3_def fin3_def vdivs_def norm3_def dot_def fsub_def truthy_def)
  have r: "rotation_matrix_from_vectors (fin3 (1, 0, 0)) (fin3 (0, 1, 0))
       = ((Fin 0, Fin (- 1), Fin 0), (Fin 1, Fin 0, Fin 0), (Fin 0, Fin 0, Fin 1))"
    by (simp add: rotation_unfold any3_def cross_def unit3_def fin3_def vdivs_def norm3_def dot_def
          fsub_def truthy_def kmat_of_def eye3_def madd_def mscale_def mmul_def vadd_def vscale_def
          vecmat_def col0_def col1_def col2_def)
  have h: "(1::real, 0::real, 0::real) \<noteq> (0, 0, 0)" "(0::real, 1::real, 0::real) \<noteq> (0, 0, 0)"
    "(2::real) \<noteq> 0" by simp_all
  note th = rotation_builder [OF h, unfolded Let_def]
  from th v have m: "matvec (rotation_matrix_from_vectors (fin3 (1, 0, 0)) (fin3 (0, 1, 0)))
      (unit3 (fin3 (1, 0, 0))) = unit3 (fin3 (0, 1, 0))" by blast
  from th have e: "rotation_matrix_from_vectors (fin3 (1, 0, 0)) (vscale (fin3 (1, 0, 0)) (Fin 2)) = eye3"
    "rotation_matrix_from_vectors (fin3 (1, 0, 0)) (vneg (fin3 (1, 0, 0))) = eye3" by blast+
  show ?thesis using h m r e by blast
qed

subsection \<open>Box Trimmer\<close>

lemma hs_x_upper:
  "fle (Fin (- e)) (dot (Fin (- 1), Fin 0, Fin 0) (vsub v (Fin h, Fin 0, Fin 0)))
   \<Longrightarrow> fle (coord 0 v) (Fin (h + e))"
  apply (cases v)
  subgoal for x y z
    by (cases x; cases y; cases z) (auto simp: dot_def vsub_def fsub_def coord_def split: if_splits)
  done

lemma hs_x_lower:
  "fle (Fin (- e)) (dot (Fin 1, Fin 0, Fin 0) (vsub v (Fin (- h), Fin 0, Fin 0)))
   \<Longrightarrow> fle (Fin (- h - e)) (coord 0 v)"
  apply (cases v)
  subgoal for x y z
    by (cases x; cases y; cases z) (auto simp: dot_def vsub_def fsub_def coord_def split: if_splits)
  done

lemma hs_y_upper:
  "fle (Fin (- e)) (dot (Fin 0, Fin (- 1), Fin 0) (vsub v (Fin 0, Fin h, Fin 0)))
   \<Longrightarrow> fle (coord 1 v) (Fin (h + e))"
  apply (cases v)
  subgoal for x y z
    by (cases x; cases y; cases z) (auto simp: dot_def vsub_def fsub_def coord_def split: if_splits)
  done

lemma hs_y_lower:
  "fle (Fin (- e)) (dot (Fin 0, Fin 1, Fin 0) (vsub v (Fin 0, Fin (- h), Fin 0)))
   \<Longrightarrow> fle (Fin (- h - e)) (coord 1 v)"
  apply (cases v)
  subgoal for x y z
    by (cases x; cases y; cases z) (auto simp: dot_def vsub_def fsub_def coord_def split: if_splits)
  done

lemma hs_z_upper:
  "fle (Fin (- e)) (dot (Fin 0, Fin 0, Fin (- 1)) (vsub v (Fin 0, Fin 0, Fin h)))
   \<Longrightarrow> fle (coord 2 v) (Fin (h + e))"
  apply (cases v)
  subgoal for x y z
    by (cases x; cases y; cases z) (auto simp: dot_def vsub_def fsub_def coord_def split: if_splits)
  done

lemma hs_z_lower:
  "fle (Fin (- e)) (dot (Fin 0, Fin 0, Fin 1) (vsub v (Fin 0, Fin 0, Fin (- h))))
   \<Longrightarrow> fle (Fin (- h - e)) (coord 2 v)"
  apply (cases v)
  subgoal for x y z
    by (cases x; cases y; cases z) (auto simp: dot_def vsub_def fsub_def coord_def split: if_splits)
  done

lemma slice_all_six:
  "slice_all sl m [(p1, n1), (p2, n2), (p3, n3), (p4, n4), (p5, n5), (p6, n6)] = Inr m6 \<longleftrightarrow>
   (\<exists>m1 m2 m3 m4 m5. sl m n1 p1 = Inr m1 \<and> sl m1 n2 p2 = Inr m2 \<and> sl m2 n3 p3 = Inr m3
        \<and> sl m3 n4 p4 = Inr m4 \<and> sl m4 n5 p5 = Inr m5 \<and> sl m5 n6 p6 = Inr m6)"
  by (auto split: sum.splits)

lemma slice_all_total:
  assumes "\<forall>m n p. \<exists>m'. sl m n p = Inr m'"
  shows "\<exists>m'. slice_all sl m ps = Inr m'"
proof (induction ps arbitrary: m)
  case Nil show ?case by simp
next
  case (Cons a ps)
  obtain p n where a: "a = (p, n)" by (cases a)
  obtain m1 where "sl m n p = Inr m1" using assms by blast
  then show ?case using Cons.IH [of m1] by (simp add: a)
qed

lemma box_planes_list:
  "box_planes (Fin h) =
     [((Fin h, Fin 0, Fin 0), (Fin (- 1), Fin 0, Fin 0)),
      ((Fin (- h), Fin 0, Fin 0), (Fin 1, Fin 0, Fin 0)),
      ((Fin 0, Fin h, Fin 0), (Fin 0, Fin (- 1), Fin 0)),
      ((Fin 0, Fin (- h), Fin 0), (Fin 0, Fin 1, Fin 0)),
      ((Fin 0, Fin 0, Fin h), (Fin 0, Fin 0, Fin (- 1))),
      ((Fin 0, Fin 0, Fin (- h)), (Fin 0, Fin 0, Fin 1))]"
  by (simp add: box_planes_def)

text \<open>
  Claim C5.  For every mesh and every finite half-extent \<open>h\<close>, the Box Trimmer makes
  six cuts in a row, one per face of the cube \<open>[-h,h]\<^sup>3\<close> (origin on the face, normal
  pointing inwards), and returns a result exactly when all six cuts do.  With a
  slicer that keeps its contract (every vertex it leaves is within \<open>\<epsilon>\<close> of the kept
  half-space, and it never widens the coordinate range of a mesh), every vertex of
  the result lies within \<open>[-h-\<epsilon>, h+\<epsilon>]\<close> on each axis.  With a slicer that never
  raises, the Box Trimmer returns a result.
\<close>

theorem box_trim_containment:
  assumes hs: "slicer_halfspace (Fin e) sl"
    and up: "slicer_keeps_upper sl" and lo: "slicer_keeps_lower sl"
  shows "length (box_planes (Fin h)) = 6
    \<and> (\<forall>m6. discard_extraneous sl m (Fin h) = Inr m6 \<longleftrightarrow>
          (\<exists>m1 m2 m3 m4 m5.
              sl m (Fin (- 1), Fin 0, Fin 0) (Fin h, Fin 0, Fin 0) = Inr m1
            \<and> sl m1 (Fin 1, Fin 0, Fin 0) (Fin (- h), Fin 0, Fin 0) = Inr m2
            \<and> sl m2 (Fin 0, Fin (- 1), Fin 0) (Fin 0, Fin h, Fin 0) = Inr m3
            \<and> sl m3 (Fin 0, Fin 1, Fin 0) (Fin 0, Fin (- h), Fin 0) = Inr m4
            \<and> sl m4 (Fin 0, Fin 0, Fin (- 1)) (Fin 0, Fin 0, Fin h) = Inr m5
            \<and> sl m5 (Fin 0, Fin 0, Fin 1) (Fin 0, Fin 0, Fin (- h)) = Inr m6))
    \<and> (\<forall>m6. discard_extraneous sl m (Fin h) = Inr m6 \<longrightarrow>
          (\<forall>v \<in> set (vertices m6). within_box h e v))
    \<and> ((\<forall>m n p. \<exists>m'. sl m n p = Inr m') \<longrightarrow> (\<exists>m6. discard_extraneous sl m (Fin h) = Inr m6))"
proof -
  have len: "length (box_planes (Fin h)) = 6" by (simp add: box_planes_list)
  have chain: "discard_extraneous sl m (Fin h) = Inr m6 \<longleftrightarrow>
          (\<exists>m1 m2 m3 m4 m5.
              sl m (Fin (- 1), Fin 0, Fin 0) (Fin h, Fin 0, Fin 0) = Inr m1
            \<and> sl m1 (Fin 1, Fin 0, Fin 0) (Fin (- h), Fin 0, Fin 0) = Inr m2
            \<and> sl m2 (Fin 0, Fin (- 1), Fin 0) (Fin 0, Fin h, Fin 0) = Inr m3
            \<and> sl m3 (Fin 0, Fin 1, Fin 0) (Fin 0, Fin (- h), Fin 0) = Inr m4
            \<and> sl m4 (Fin 0, Fin 0, Fin (- 1)) (Fin 0, Fin 0, Fin h) = Inr m5
            \<and> sl m5 (Fin 0, Fin 0, Fin 1) (Fin 0, Fin 0, Fin (- h)) = Inr m6)" for m6
    unfolding discard_extraneous_def box_planes_list by (rule slice_all_six)
  have box: "\<forall>v \<in> set (vertices m6). within_box h e v"
    if r: "discard_extraneous sl m (Fin h) = Inr m6" for m6
  proof -
    from r chain obtain m1 m2 m3 m4 m5 where
      c1: "sl m (Fin (- 1), Fin 0, Fin 0) (Fin h, Fin 0, Fin 0) = Inr m1" and
      c2: "sl m1 (Fin 1, Fin 0, Fin 0) (Fin (- h), Fin 0, Fin 0) = Inr m2" and
      c3: "sl m2 (Fin 0, Fin (- 1), Fin 0) (Fin 0, Fin h, Fin 0) = Inr m3" and
      c4: "sl m3 (Fin 0, Fin 1, Fin 0) (Fin 0, Fin (- h), Fin 0) = Inr m4" and
      c5: "sl m4 (Fin 0, Fin 0, Fin (- 1)) (Fin 0, Fin 0, Fin h) = Inr m5" and
      c6: "sl m5 (Fin 0, Fin 0, Fin 1) (Fin 0, Fin 0, Fin (- h)) = Inr m6"
      by blast
    have H: "\<And>a n p b v. sl a n p = Inr b \<Longrightarrow> v \<in> set (vertices b)
                \<Longrightarrow> fle (Fin (- e)) (dot n (vsub v p))"
      using hs unfolding slicer_halfspace_def fneg.simps by blast
    have U: "\<And>a n p b i hi. sl a n p = Inr b \<Longrightarrow> \<forall>v \<in> set (vertices a). fle (coord i v) hi
                \<Longrightarrow> \<forall>v \<in> set (vertices b). fle (coord i v) hi"
      using up unfolding slicer_keeps_upper_def by blast
    have L: "\<And>a n p b i lo'. sl a n p = Inr b \<Longrightarrow> \<forall>v \<in> set (vertices a). fle lo' (coord i v)
                \<Longrightarrow> \<forall>v \<in> set (vertices b). fle lo' (coord i v)"
      using lo unfolding slicer_keeps_lower_def by blast
    have x1: "\<forall>v \<in> set (vertices m1). fle (coord 0 v) (Fin (h + e))"
      using H [OF c1] hs_x_upper by blast
    have x2: "\<forall>v \<in> set (vertices m2). fle (Fin (- h - e)) (coord 0 v)"
      using H [OF c2] hs_x_lower by blast
    have y3: "\<forall>v \<in> set (vertices m3). fle (coord 1 v) (Fin (h + e))"
      using H [OF c3] hs_y_upper by blast
    have y4: "\<forall>v \<in> set (vertices m4). fle (Fin (- h - e)) (coord 1 v)"
      using H [OF c4] hs_y_lower by blast
    have z5: "\<forall>v \<in> set (vertices m5). fle (coord 2 v) (Fin (h + e))"
      using H [OF c5] hs_z_upper by blast
    have z6: "\<forall>v \<in> set (vertices m6). fle (Fin (- h - e)) (coord 2 v)"
      using H [OF c6] hs_z_lower by blast
    have xu: "\<forall>v \<in> set (vertices m6). fle (coord 0 v) (Fin (h + e))"
      by (intro U [OF c6] U [OF c5] U [OF c4] U [OF c3] U [OF c2] x1)
    have xl: "\<forall>v \<in> set (vertices m6). fle (Fin (- h - e)) (coord 0 v)"
      by (intro L [OF c6] L [OF c5] L [OF c4] L [OF c3] x2)
    have yu: "\<forall>v \<in> set (vertices m6). fle (coord 1 v) (Fin (h + e))"
      by (intro U [OF c6] U [OF c5] U [OF c4] y3)
    have yl: "\<forall>v \<in> set (vertices m6). fle (Fin (- h - e)) (coord 1 v)"
      by (intro L [OF c6] L [OF c5] y4)
    have zu: "\<forall>v \<in> set (vertices m6). fle (coord 2 v) (Fin (h + e))"
      by (intro U [OF c6] z5)
    show ?thesis using xu xl yu yl zu z6 by (simp add: within_box_def)
  qed
  have tot: "(\<forall>m n p. \<exists>m'. sl m n p = Inr m') \<longrightarrow> (\<exists>m6. discard_extraneous sl m (Fin h) = Inr m6)"
    unfolding discard_extraneous_def using slice_all_total by blast
  show ?thesis using len chain box tot by blast
qed

lemma fle_relax: "0 \<le> e \<Longrightarrow> fle (Fin 0) x \<Longrightarrow> fle (Fin (- e)) x"
  by (cases x) auto

lemma cull_vertices: "cull_slicer m n p = Inr m' \<Longrightarrow> vertices m' = filter (inside n p) (vertices m)"
  by (auto simp: cull_slicer_def Let_def)

lemma cull_halfspace: "0 \<le> e \<Longrightarrow> slicer_halfspace (Fin e) cull_slicer"
  unfolding slicer_halfspace_def fneg.simps
  by (auto dest!: cull_vertices simp: inside_def intro: fle_relax)

lemma cull_keeps_upper: "slicer_keeps_upper cull_slicer"
  unfolding slicer_keeps_upper_def by (auto dest!: cull_vertices)

lemma cull_keeps_lower: "slicer_keeps_lower cull_slicer"
  unfolding slicer_keeps_lower_def by (auto dest!: cull_vertices)

lemma cull_total: "\<forall>m n p. \<exists>m'. cull_slicer m n p = Inr m'"
  by (simp add: cull_slicer_def Let_def)

theorem box_trim_containment_witness:
  "slicer_halfspace (Fin 0) cull_slicer \<and> slicer_keeps_upper cull_slicer
   \<and> slicer_keeps_lower cull_slicer
   \<and> (\<exists>m6. discard_extraneous cull_slicer wide_mesh (Fin (1 / 2)) = Inr m6
          \<and> (\<forall>v \<in> set (vertices m6). within_box (1 / 2) 0 v))"
proof -
  have h: "slicer_halfspace (Fin 0) cull_slicer" by (rule cull_halfspace) simp
  note th = box_trim_containment [OF h cull_keeps_upper cull_keeps_lower, of "1 / 2" wide_mesh]
  from th cull_total obtain m6 where
    m6: "discard_extraneous cull_slicer wide_mesh (Fin (1 / 2)) = Inr m6" by blast
  with th have "\<forall>v \<in> set (vertices m6). within_box (1 / 2) 0 v" by blast
  with m6 h cull_keeps_upper cull_keeps_lower show ?thesis by blast
qed

lemma wide_mesh_trimmed:
  "discard_extraneous cull_slicer wide_mesh (Fin (1 / 2)) =
     Inr \<lparr>vertices = map fin3 [(0, 0, 0), (1 / 4, 0, 0), (0, 1 / 4, 0)], faces = [(0, 1, 2)]\<rparr>"
  by (simp add: discard_extraneous_def box_planes_def cull_slicer_def wide_mesh_def inside_def
        fin3_def dot_def vsub_def fsub_def Let_def)

subsection \<open>Component selection\<close>

lemma argmax_from_spec:
  assumes "bi < i" "length pre = i" "pre ! bi = best" "\<forall>j<i. pre ! j \<le> best" "\<forall>j<bi. pre ! j < best"
  shows "let k = argmax_from best bi i xs in
     k < length (pre @ xs) \<and> (\<forall>j < length (pre @ xs). (pre @ xs) ! j \<le> (pre @ xs) ! k)
     \<and> (\<forall>j<k. (pre @ xs) ! j < (pre @ xs) ! k)"
  using assms
proof (induction xs arbitrary: best bi i pre)
  case Nil
  then show ?case by (simp add: Let_def)
next
  case (Cons x xs)
  show ?case
  proof (cases "best < x")
    case True
    have "let k = argmax_from x i (Suc i) xs in
     k < length ((pre @ [x]) @ xs) \<and> (\<forall>j < length ((pre @ [x]) @ xs). ((pre @ [x]) @ xs) ! j \<le> ((pre @ [x]) @ xs) ! k)
     \<and> (\<forall>j<k. ((pre @ [x]) @ xs) ! j < ((pre @ [x]) @ xs) ! k)"
    proof (rule Cons.IH)
      show "i < Suc i" by simp
      show "length (pre @ [x]) = Suc i" using Cons.prems by simp
      show "(pre @ [x]) ! i = x" using Cons.prems(2) by (simp add: nth_append)
      show "\<forall>j<Suc i. (pre @ [x]) ! j \<le> x"
      proof (intro allI impI)
        fix j assume "j < Suc i"
        then consider "j < i" | "j = i" by linarith
        then show "(pre @ [x]) ! j \<le> x"
        proof cases
          case 1
          then have "pre ! j \<le> best" using Cons.prems(4) by blast
          then show ?thesis using 1 True Cons.prems(2) by (simp add: nth_append)
        next
          case 2
          then show ?thesis using Cons.prems(2) by (simp add: nth_append)
        qed
      qed
      show "\<forall>j<i. (pre @ [x]) ! j < x"
      proof (intro allI impI)
        fix j assume j: "j < i"
        then have "pre ! j \<le> best" using Cons.prems(4) by blast
        then show "(pre @ [x]) ! j < x" using j True Cons.prems(2) by (simp add: nth_append)
      qed
    qed
    then show ?thesis using True by simp
  next
    case False
    have "let k = argmax_from best bi (Suc i) xs in
     k < length ((pre @ [x]) @ xs) \<and> (\<forall>j < length ((pre @ [x]) @ xs). ((pre @ [x]) @ xs) ! j \<le> ((pre @ [x]) @ xs) ! k)
     \<and> (\<forall>j<k. ((pre @ [x]) @ xs) ! j < ((pre @ [x]) @ xs) ! k)"
    proof (rule Cons.IH)
      show "bi < Suc i" using Cons.prems by simp
      show "length (pre @ [x]) = Suc i" using Cons.prems by simp
      show "(pre @ [x]) ! bi = best" using Cons.prems(1,2,3) by (simp add: nth_append)
      show "\<forall>j<Suc i. (pre @ [x]) ! j \<le> best"
      proof (intro allI impI)
        fix j assume "j < Suc i"
        then consider "j < i" | "j = i" by linarith
        then show "(pre @ [x]) ! j \<le> best"
        proof cases
          case 1
          then have "pre ! j \<le> best" using Cons.prems(4) by blast
          then show ?thesis using 1 Cons.prems(2) by (simp add: nth_append)
        next
          case 2
          then show ?thesis using Cons.prems(2) False by (simp add: nth_append)
        qed
      qed
      show "\<forall>j<bi. (pre @ [x]) ! j < best"
      proof (intro allI impI)
        fix j assume j: "j < bi"
        then have "pre ! j < best" using Cons.prems(5) by blast
        then show "(pre @ [x]) ! j < best" using j Cons.prems(1,2) by (simp add: nth_append)
      qed
    qed
    then show ?thesis using False by simp
  qed
qed

lemma np_argmax_spec:
  assumes "xs \<noteq> []"
  shows "\<exists>k. np_argmax xs = Inr k \<and> k < length xs \<and> (\<forall>j<length xs. xs ! j \<le> xs ! k)
         \<and> (\<forall>j<k. xs ! j < xs ! k)"
proof -
  obtain x ys where xs: "xs = x # ys" using assms by (cases xs) auto
  have "let k = argmax_from x 0 1 ys in
     k < length ([x] @ ys) \<and> (\<forall>j < length ([x] @ ys). ([x] @ ys) ! j \<le> ([x] @ ys) ! k)
     \<and> (\<forall>j<k. ([x] @ ys) ! j < ([x] @ ys) ! k)"
    by (rule argmax_from_spec) auto
  then show ?thesis unfolding xs by (simp add: Let_def)
qed

text \<open>
  Claim C6.  For every partition into at least one component, the Component Selector
  returns a component of the partition whose vertex count is greater than or equal to
  the count of every component, and it is the first such component: every component
  before it has a strictly smaller count.
\<close>

theorem select_largest_maximal:
  assumes "comps \<noteq> []"
  shows "\<exists>i. select_largest comps = Inr (comps ! i) \<and> i < length comps
           \<and> (\<forall>m \<in> set comps. length (vertices m) \<le> length (vertices (comps ! i)))
           \<and> (\<forall>j<i. length (vertices (comps ! j)) < length (vertices (comps ! i)))"
proof -
  let ?ns = "map (\<lambda>m. length (vertices m)) comps"
  have "?ns \<noteq> []" using assms by simp
  from np_argmax_spec [OF this] obtain k where
    k: "np_argmax ?ns = Inr k" "k < length ?ns"
       "\<forall>j<length ?ns. ?ns ! j \<le> ?ns ! k" "\<forall>j<k. ?ns ! j < ?ns ! k"
    by blast
  have kl: "k < length comps" using k(2) by simp
  have sel: "select_largest comps = Inr (comps ! k)"
    by (simp add: select_largest_def k(1))
  have mx: "\<forall>m \<in> set comps. length (vertices m) \<le> length (vertices (comps ! k))"
  proof
    fix m assume "m \<in> set comps"
    then obtain j where j: "j < length comps" "comps ! j = m"
      by (auto simp: in_set_conv_nth)
    have nj: "?ns ! j = length (vertices m)" using j by simp
    have nk: "?ns ! k = length (vertices (comps ! k))" using kl by simp
    have "j < length ?ns" using j(1) by simp
    then have "?ns ! j \<le> ?ns ! k" using k(3) by blast
    then show "length (vertices m) \<le> length (vertices (comps ! k))"
      by (simp only: nj nk)
  qed
  have fst: "\<forall>j<k. length (vertices (comps ! j)) < length (vertices (comps ! k))"
  proof (intro allI impI)
    fix j assume j: "j < k"
    have nj: "?ns ! j = length (vertices (comps ! j))" using j kl by simp
    have nk: "?ns ! k = length (vertices (comps ! k))" using kl by simp
    have "?ns ! j < ?ns ! k" using j k(4) by blast
    then show "length (vertices (comps ! j)) < length (vertices (comps ! k))"
      by (simp only: nj nk)
  qed
  show ?thesis using sel kl mx fst by blast
qed

theorem select_largest_maximal_witness:
  "[comp_a, comp_b, comp_c] \<noteq> [] \<and>
   (\<exists>i. select_largest [comp_a, comp_b, comp_c] = Inr ([comp_a, comp_b, comp_c] ! i)
        \<and> i < length [comp_a, comp_b, comp_c]
        \<and> (\<forall>m \<in> set [comp_a, comp_b, comp_c].
               length (vertices m) \<le> length (vertices ([comp_a, comp_b, comp_c] ! i)))
        \<and> (\<forall>j<i. length (vertices ([comp_a, comp_b, comp_c] ! j))
                    < length (vertices ([comp_a, comp_b, comp_c] ! i))))"
  using select_largest_maximal [of "[comp_a, comp_b, comp_c]"] by simp

subsection \<open>Normalisation\<close>

lemma vmin_fin3: "vmin (fin3 a) (fin3 b) = fin3 (rmin3 a b)"
  by (cases a, cases b) (simp add: vmin_def fin3_def rmin3_def)

lemma vmax_fin3: "vmax (fin3 a) (fin3 b) = fin3 (rmax3 a b)"
  by (cases a, cases b) (simp add: vmax_def fin3_def rmax3_def)

lemma foldl_vmin_fin3: "foldl vmin (fin3 a) (map fin3 rs) = fin3 (foldl rmin3 a rs)"
  by (induction rs arbitrary: a) (simp_all add: vmin_fin3)

lemma foldl_vmax_fin3: "foldl vmax (fin3 a) (map fin3 rs) = fin3 (foldl rmax3 a rs)"
  by (induction rs arbitrary: a) (simp_all add: vmax_fin3)

lemma le3_refl: "le3 a a" by (cases a) (simp add: le3_def)

lemma le3_trans: "le3 a b \<Longrightarrow> le3 b c \<Longrightarrow> le3 a c"
  by (cases a, cases b, cases c) (simp add: le3_def)

lemma rmin3_le1: "le3 (rmin3 a b) a" by (cases a, cases b) (simp add: le3_def rmin3_def)

lemma rmin3_le2: "le3 (rmin3 a b) b" by (cases a, cases b) (simp add: le3_def rmin3_def)

lemma rmax3_ge1: "le3 a (rmax3 a b)" by (cases a, cases b) (simp add: le3_def rmax3_def)

lemma rmax3_ge2: "le3 b (rmax3 a b)" by (cases a, cases b) (simp add: le3_def rmax3_def)

lemma foldl_rmin3_le: "le3 (foldl rmin3 a rs) a \<and> (\<forall>r \<in> set rs. le3 (foldl rmin3 a rs) r)"
proof (induction rs arbitrary: a)
  case Nil show ?case by (simp add: le3_refl)
next
  case (Cons x xs)
  have ih: "le3 (foldl rmin3 (rmin3 a x) xs) (rmin3 a x)"
       "\<forall>r \<in> set xs. le3 (foldl rmin3 (rmin3 a x) xs) r"
    using Cons.IH [of "rmin3 a x"] by simp_all
  have "le3 (foldl rmin3 (rmin3 a x) xs) a" using ih(1) rmin3_le1 by (rule le3_trans)
  moreover have "le3 (foldl rmin3 (rmin3 a x) xs) x" using ih(1) rmin3_le2 by (rule le3_trans)
  ultimately show ?case using ih(2) by simp
qed

lemma foldl_rmax3_ge: "le3 a (foldl rmax3 a rs) \<and> (\<forall>r \<in> set rs. le3 r (foldl rmax3 a rs))"
proof (induction rs arbitrary: a)
  case Nil show ?case by (simp add: le3_refl)
next
  case (Cons x xs)
  have ih: "le3 (rmax3 a x) (foldl rmax3 (rmax3 a x) xs)"
       "\<forall>r \<in> set xs. le3 r (foldl rmax3 (rmax3 a x) xs)"
    using Cons.IH [of "rmax3 a x"] by simp_all
  have "le3 a (foldl rmax3 (rmax3 a x) xs)" using rmax3_ge1 ih(1) by (rule le3_trans)
  moreover have "le3 x (foldl rmax3 (rmax3 a x) xs)" using rmax3_ge2 ih(1) by (rule le3_trans)
  ultimately show ?case using ih(2) by simp
qed

lemma bbox_bounds:
  assumes "u \<in> set (r # rs)"
  shows "le3 (foldl rmin3 r rs) u" "le3 u (foldl rmax3 r rs)"
  using assms foldl_rmin3_le [of r rs] foldl_rmax3_ge [of r rs] by auto

lemma extent_pos:
  assumes "u \<in> set (r # rs)" "w \<in> set (r # rs)" "u \<noteq> w"
    and "foldl rmin3 r rs = (n0, n1, n2)" "foldl rmax3 r rs = (x0, x1, x2)"
  shows "0 < max (max (x0 - n0) (x1 - n1)) (x2 - n2)"
proof -
  obtain u0 u1 u2 where u: "u = (u0, u1, u2)" by (cases u)
  obtain w0 w1 w2 where w: "w = (w0, w1, w2)" by (cases w)
  have b: "n0 \<le> u0" "n1 \<le> u1" "n2 \<le> u2" "u0 \<le> x0" "u1 \<le> x1" "u2 \<le> x2"
          "n0 \<le> w0" "n1 \<le> w1" "n2 \<le> w2" "w0 \<le> x0" "w1 \<le> x1" "w2 \<le> x2"
    using bbox_bounds [OF assms(1)] bbox_bounds [OF assms(2)] assms(4,5)
    by (simp_all add: le3_def u w)
  have "u0 \<noteq> w0 \<or> u1 \<noteq> w1 \<or> u2 \<noteq> w2" using assms(3) u w by simp
  then show ?thesis using b by linarith
qed

lemma undo_vertex:
  assumes "d \<noteq> 0"
  shows "vadd (vscale (vscale (vsub (fin3 v) (fin3 t)) (Fin (1 / d))) (Fin d)) (fin3 t)
           = fin3 v"
  using assms by (cases v, cases t) (simp add: vadd_def vscale_def vsub_def fin3_def fsub_def)

text \<open>
  The normalisation round trip in exact arithmetic.  With finite values computed as
  real numbers, for a mesh of finite vertices with two different vertices,
  \<open>normalize_mesh\<close> succeeds, and multiplying each vertex it leaves by \<open>1/scale\<close> and
  adding the translation gives back the original vertices; the faces are untouched.
  This is a fact of the formula, not of the float64 program: there the reciprocal of
  a very small extent overflows to \<open>inf\<close> and every step is rounded.
\<close>

theorem normalize_round_trip:
  assumes "vertices m = map fin3 rs" and "u \<in> set rs" and "w \<in> set rs" and "u \<noteq> w"
  shows "\<exists>m' t s. normalize_mesh m = Inr (m', t, s)
           \<and> undo_normalization (vertices m') t s = vertices m \<and> faces m' = faces m"
proof -
  obtain r rs' where rs: "rs = r # rs'" using assms(2) by (cases rs) auto
  obtain n0 n1 n2 where mn: "foldl rmin3 r rs' = (n0, n1, n2)" by (cases "foldl rmin3 r rs'")
  obtain x0 x1 x2 where mx: "foldl rmax3 r rs' = (x0, x1, x2)" by (cases "foldl rmax3 r rs'")
  define d where "d = max (max (x0 - n0) (x1 - n1)) (x2 - n2)"
  define t where "t = ((x0 - n0) / 2 + n0, (x1 - n1) / 2 + n1, (x2 - n2) / 2 + n2)"
  have dpos: "0 < d" unfolding d_def
    using extent_pos [OF _ _ assms(4) mn mx] assms(2,3) rs by simp
  have vm: "vertices m = fin3 r # map fin3 rs'" using assms(1) rs by simp
  have mnv: "np_min_axis0 (vertices m) = Inr (fin3 (n0, n1, n2))"
    by (simp add: vm foldl_vmin_fin3 mn)
  have mxv: "np_max_axis0 (vertices m) = Inr (fin3 (x0, x1, x2))"
    by (simp add: vm foldl_vmax_fin3 mx)
  have sz: "vsub (fin3 (x0, x1, x2)) (fin3 (n0, n1, n2)) = fin3 (x0 - n0, x1 - n1, x2 - n2)"
    by (simp add: vsub_def fin3_def fsub_def)
  have mx3: "np_max3 (fin3 (x0 - n0, x1 - n1, x2 - n2)) = Fin d"
    by (simp add: np_max3_def fin3_def d_def)
  have tr: "vadd (vdivs (fin3 (x0 - n0, x1 - n1, x2 - n2)) (Fin 2)) (fin3 (n0, n1, n2)) = fin3 t"
    by (simp add: vadd_def vdivs_def fin3_def t_def)
  have nm: "normalize_mesh m =
      Inr (m\<lparr>vertices := map (\<lambda>v. vscale v (fdiv (Fin 1) (Fin d)))
                              (map (\<lambda>v. vsub v (fin3 t)) (vertices m))\<rparr>,
           fin3 t, fdiv (Fin 1) (Fin d))"
    by (simp add: normalize_mesh_def mnv mxv sz mx3 tr Let_def)
  have "undo_normalization (map (\<lambda>v. vscale v (fdiv (Fin 1) (Fin d)))
                              (map (\<lambda>v. vsub v (fin3 t)) (map fin3 rs))) (fin3 t) (fdiv (Fin 1) (Fin d))
        = map fin3 rs"
    unfolding undo_normalization_def map_map
    using dpos by (intro map_cong refl) (simp add: undo_vertex)
  then show ?thesis using nm assms(1) by simp
qed

theorem normalize_round_trip_witness:
  "vertices two_point_mesh = map fin3 [(0, 0, 0), (2, 0, 0)]
   \<and> (0, 0, 0) \<in> set [(0, 0, 0), (2::real, 0::real, 0::real)]
   \<and> (2, 0, 0) \<in> set [(0, 0, 0), (2::real, 0::real, 0::real)]
   \<and> ((0::real, 0::real, 0::real) \<noteq> (2, 0, 0))
   \<and> (\<exists>m' t s. normalize_mesh two_point_mesh = Inr (m', t, s)
           \<and> undo_normalization (vertices m') t s = vertices two_point_mesh
           \<and> faces m' = faces two_point_mesh)"
  using normalize_round_trip [of two_point_mesh "[(0, 0, 0), (2, 0, 0)]" "(0, 0, 0)" "(2, 0, 0)"]
  by (simp add: two_point_mesh_def)

subsection \<open>The pipeline\<close>

lemmas vec_defs = fin3_def vadd_def vsub_def vneg_def vscale_def vdivs_def dot_def norm3_def
  cross_def any3_def truthy_def eye3_def madd_def mscale_def col0_def col1_def col2_def
  matvec_def vecmat_def mmul_def fsub_def vmin_def vmax_def np_max3_def

lemma normalize_centered:
  "normalize_mesh centered_mesh = Inr (centered_mesh, (Fin 0, Fin 0, Fin 0), Fin 1)"
  by (simp add: normalize_mesh_def centered_mesh_def vec_defs Let_def)

lemma normalize_shifted:
  "normalize_mesh shifted_mesh = Inr (centered_mesh, (Fin 10, Fin 0, Fin 0), Fin 1)"
  by (simp add: normalize_mesh_def centered_mesh_def shifted_mesh_def vec_defs Let_def)

lemma normalize_point:
  "normalize_mesh point_mesh = Inr (\<lparr>vertices = [(NaN, NaN, NaN)], faces = []\<rparr>, (Fin 1, Fin 2, Fin 3), PInf)"
  by (simp add: normalize_mesh_def point_mesh_def vec_defs Let_def)

lemma rot_up_z:
  "rotation_matrix_from_vectors (Fin 0, Fin 1, Fin 0) (Fin 0, Fin 0, Fin 1)
     = ((Fin 1, Fin 0, Fin 0), (Fin 0, Fin 0, Fin (- 1)), (Fin 0, Fin 1, Fin 0))"
  by (simp add: rotation_matrix_from_vectors_def unit3_def kmat_of_def vec_defs Let_def)

lemma fit_centered:
  "pyrsc_plane_fit sample_lib (vertices centered_mesh) th = Inr [Fin 0, Fin 0, Fin 1, Fin (1 / 4)]"
  by (simp add: sample_lib_def centered_mesh_def)

lemma pn_sample:
  "to_point_normal [Fin 0, Fin 0, Fin 1, Fin (1 / 4)]
     = Inr ((Fin 0, Fin 0, Fin 1), (Fin 0, Fin 0, Fin (- 1 / 4)))"
  by (simp add: vec_defs Let_def)

lemma cull_centered_low:
  "z \<le> - 1 / 8 \<Longrightarrow>
   cull_slicer centered_mesh (Fin 0, Fin 0, Fin 1) (Fin 0, Fin 0, Fin z) = Inr centered_mesh"
  by (simp add: cull_slicer_def centered_mesh_def inside_def vec_defs Let_def)

lemma trim_centered_narrow:
  "discard_extraneous cull_slicer centered_mesh (Fin (3 / 10)) =
     Inr \<lparr>vertices = map fin3 [(0, 1 / 4, 1 / 8), (0, - 1 / 4, - 1 / 8)], faces = []\<rparr>"
  by (simp add: discard_extraneous_def box_planes_def cull_slicer_def centered_mesh_def inside_def
        vec_defs Let_def)

lemma trim_centered_wide:
  "discard_extraneous cull_slicer centered_mesh (Fin 1) = Inr centered_mesh"
  by (simp add: discard_extraneous_def box_planes_def cull_slicer_def centered_mesh_def inside_def
        vec_defs Let_def)

lemma sl_sample: "trimesh_slice_mesh_plane sample_lib = cull_slicer"
  by (simp add: sample_lib_def)

lemma centered_len: "length (vertices centered_mesh) = 4"
  by (simp add: centered_mesh_def)

lemma cut_centered_default:
  "cut_and_trim sample_lib remove_plane_defaults centered_mesh 4 =
     Inr (\<lparr>vertices = map fin3 [(0, 1 / 4, 1 / 8), (0, - 1 / 4, - 1 / 8)], faces = []\<rparr>,
          ((Fin 1, Fin 0, Fin 0), (Fin 0, Fin 0, Fin (- 1)), (Fin 0, Fin 1, Fin 0)))"
  by (simp add: cut_and_trim_def fit_centered pn_sample sl_sample cull_centered_low centered_len
        rot_up_z trim_centered_narrow remove_plane_defaults_def vadd_def vscale_def Let_def
        del: to_point_normal.simps)

lemma cut_centered_wide:
  "cut_and_trim sample_lib wide_config centered_mesh 4 =
     Inr (centered_mesh,
          ((Fin 1, Fin 0, Fin 0), (Fin 0, Fin 0, Fin (- 1)), (Fin 0, Fin 1, Fin 0)))"
  by (simp add: cut_and_trim_def fit_centered pn_sample sl_sample cull_centered_low centered_len
        rot_up_z trim_centered_wide remove_plane_defaults_def wide_config_def vadd_def vscale_def
        Let_def del: to_point_normal.simps)

lemma sample_lib_fields:
  "trimesh_fix_winding sample_lib = Inr"
  "trimesh_split sample_lib m = Inr (if faces m = [] then [] else [m])"
  "meshfix_repair sample_lib = Inr"
  by (simp_all add: sample_lib_def)

lemma wide_config_fields:
  "fix_winding wide_config" "reorient wide_config" "normalize_opt wide_config"
  "keep_largest wide_config" "close_holes wide_config"
  by (simp_all add: wide_config_def remove_plane_defaults_def)

lemma turn_centered:
  "centered_mesh\<lparr>vertices := map (\<lambda>v. vecmat v
       ((Fin 1, Fin 0, Fin 0), (Fin 0, Fin 0, Fin (- 1)), (Fin 0, Fin 1, Fin 0)))
       (vertices centered_mesh)\<rparr> = turned_mesh"
  by (simp add: centered_mesh_def turned_mesh_def fin3_def vecmat_def col0_def col1_def col2_def
        dot_def)

lemma centered_faces: "faces centered_mesh \<noteq> []"
  by (simp add: centered_mesh_def)

lemma clean_centered_wide:
  "clean_normalized sample_lib wide_config centered_mesh 4 t s = Inr turned_mesh"
  by (simp add: clean_normalized_def cut_centered_wide component_stage_def close_stage_def
        reorient_stage_def denormalize_stage_def wide_config_fields sample_lib_fields
        select_largest_def centered_faces turn_centered)

lemma run_centered_wide:
  "remove_plane sample_lib wide_config [centered_mesh] 0 = (Inr 1, [centered_mesh, turned_mesh])"
  by (simp add: remove_plane_def normalize_centered centered_len clean_centered_wide
        wide_config_fields sample_lib_fields)

lemma run_shifted_wide:
  "remove_plane sample_lib wide_config [shifted_mesh] 0 = (Inr 1, [centered_mesh, turned_mesh])"
proof -
  have "length (vertices shifted_mesh) = 4" by (simp add: shifted_mesh_def)
  then show ?thesis
    by (simp add: remove_plane_def normalize_shifted clean_centered_wide
        wide_config_fields sample_lib_fields)
qed

lemma remove_plane_after_normalize:
  assumes fw: "(if fix_winding cfg then trimesh_fix_winding l (st ! r) else Inr (st ! r)) = Inr m0"
    and nm: "normalize_mesh m0 = Inr (m1, t, s)"
  shows "remove_plane l cfg st r =
     (case clean_normalized l cfg m1 (length (vertices m0)) t s of
        Inl e \<Rightarrow> (Inl e, st[r := m1])
      | Inr new_mesh \<Rightarrow> (Inr (length st), st[r := m1] @ [new_mesh]))"
  unfolding remove_plane_def fw by (simp add: nm Let_def split: sum.splits)

lemma remove_plane_normalize_fails:
  assumes fw: "(if fix_winding cfg then trimesh_fix_winding l (st ! r) else Inr (st ! r)) = Inr m0"
    and nm: "normalize_mesh m0 = Inl e"
  shows "remove_plane l cfg st r = (Inl e, st[r := m0])"
  unfolding remove_plane_def fw by (simp add: nm Let_def)

lemma remove_plane_success:
  assumes "remove_plane l cfg st r = (Inr r', st')"
  shows "\<exists>m0 m1 t s new_mesh.
      (if fix_winding cfg then trimesh_fix_winding l (st ! r) else Inr (st ! r)) = Inr m0
    \<and> normalize_mesh m0 = Inr (m1, t, s)
    \<and> clean_normalized l cfg m1 (length (vertices m0)) t s = Inr new_mesh
    \<and> r' = length st \<and> st' = st[r := m1] @ [new_mesh]"
  using assms unfolding remove_plane_def
  by (auto simp: Let_def split: sum.splits prod.splits if_splits)

lemma normalize_mesh_shape:
  assumes "normalize_mesh m0 = Inr (m1, t, s)"
  shows "vertices m1 = map (\<lambda>v. vscale (vsub v t) s) (vertices m0) \<and> faces m1 = faces m0"
  using assms unfolding normalize_mesh_def
  by (auto simp: Let_def split: sum.splits)

text \<open>
  Claim C10.  The conversion to point-normal form computes the plane point
  \<open>[0, 0, -d/c]\<close> with no guard and divides the normal by \<open>n\<cdot>n\<close>.  When \<open>c\<close> is zero
  the third coordinate of the point is not finite (\<open>\<plusminus>inf\<close> or \<open>nan\<close>); when \<open>c\<close> is
  nonzero and \<open>c\<close>, \<open>d\<close> are finite it is the number \<open>-d/c\<close>.  The point goes to the
  slicer as it is, and the pipeline fails when the slicer raises on it.
\<close>

theorem point_normal_division:
  "to_point_normal [a, b, c, d] =
      Inr (vdivs (a, b, c) (dot (a, b, c) (a, b, c)), (Fin 0, Fin 0, fneg (fdiv d c)))
   \<and> (c = Fin 0 \<longrightarrow> \<not> is_fin (fneg (fdiv d c)))
   \<and> (\<forall>x y. c = Fin x \<and> x \<noteq> 0 \<and> d = Fin y \<longrightarrow> fneg (fdiv d c) = Fin (- (y / x)))
   \<and> (pyrsc_plane_fit l (vertices m) (ransac_threshold cfg) = Inr [a, b, c, d]
        \<and> trimesh_slice_mesh_plane l m (vdivs (a, b, c) (dot (a, b, c) (a, b, c)))
              (Fin 0, Fin 0, fneg (fdiv d c)) = Inl e
        \<longrightarrow> cut_and_trim l cfg m k = Inl e)"
proof -
  have pn: "to_point_normal [a, b, c, d] =
      Inr (vdivs (a, b, c) (dot (a, b, c) (a, b, c)), (Fin 0, Fin 0, fneg (fdiv d c)))"
    by (simp add: Let_def)
  have nf: "c = Fin 0 \<longrightarrow> \<not> is_fin (fneg (fdiv d c))"
    by (cases d) auto
  have fi: "\<forall>x y. c = Fin x \<and> x \<noteq> 0 \<and> d = Fin y \<longrightarrow> fneg (fdiv d c) = Fin (- (y / x))"
    by simp
  have pl: "pyrsc_plane_fit l (vertices m) (ransac_threshold cfg) = Inr [a, b, c, d]
        \<and> trimesh_slice_mesh_plane l m (vdivs (a, b, c) (dot (a, b, c) (a, b, c)))
              (Fin 0, Fin 0, fneg (fdiv d c)) = Inl e
        \<longrightarrow> cut_and_trim l cfg m k = Inl e"
    unfolding cut_and_trim_def by (auto simp: pn simp del: to_point_normal.simps)
  show ?thesis using pn nf fi pl by blast
qed

lemma strict_lib_fields:
  "pyrsc_plane_fit strict_lib vs th = Inr [Fin 0, Fin 1, Fin 0, Fin (1 / 4)]"
  "trimesh_slice_mesh_plane strict_lib m n p =
     (if is_fin3 p then cull_slicer m n p else Inl (LibraryError ''plane origin''))"
  by (simp_all add: strict_lib_def sample_lib_def)

theorem point_normal_division_witness:
  "Fin 0 = Fin 0
   \<and> to_point_normal [Fin 0, Fin 1, Fin 0, Fin (1 / 4)]
        = Inr ((Fin 0, Fin 1, Fin 0), (Fin 0, Fin 0, MInf))
   \<and> \<not> is_fin (fneg (fdiv (Fin (1 / 4)) (Fin 0)))
   \<and> fneg (fdiv (Fin (1 / 4)) (Fin 2)) = Fin (- ((1 / 4) / 2))
   \<and> cut_and_trim strict_lib remove_plane_defaults centered_mesh 4 = Inl (LibraryError ''plane origin'')"
proof -
  note th = point_normal_division [of "Fin 0" "Fin 1" "Fin 0" "Fin (1 / 4)" strict_lib centered_mesh
      remove_plane_defaults "LibraryError ''plane origin''" 4]
  have v: "vdivs (Fin 0, Fin 1, Fin 0) (dot (Fin 0, Fin 1, Fin 0) (Fin 0, Fin 1, Fin 0))
      = (Fin 0, Fin 1, Fin 0)" by (simp add: vdivs_def dot_def)
  have z: "fneg (fdiv (Fin (1 / 4)) (Fin 0)) = MInf" by simp
  have sl: "trimesh_slice_mesh_plane strict_lib centered_mesh (Fin 0, Fin 1, Fin 0)
      (Fin 0, Fin 0, MInf) = Inl (LibraryError ''plane origin'')"
    by (simp add: strict_lib_fields is_fin3_def)
  from th have 1: "to_point_normal [Fin 0, Fin 1, Fin 0, Fin (1 / 4)]
        = Inr ((Fin 0, Fin 1, Fin 0), (Fin 0, Fin 0, MInf))" unfolding v z by blast
  from th have 2: "\<not> is_fin (fneg (fdiv (Fin (1 / 4)) (Fin 0)))" by blast
  from th have 3: "cut_and_trim strict_lib remove_plane_defaults centered_mesh 4
      = Inl (LibraryError ''plane origin'')"
    unfolding v z using sl strict_lib_fields(1) by blast
  have 4: "fneg (fdiv (Fin (1 / 4)) (Fin 2)) = Fin (- ((1 / 4) / 2))"
    using point_normal_division [of "Fin 0" "Fin 1" "Fin 2" "Fin (1 / 4)"] by simp
  show ?thesis using 1 2 3 4 by blast
qed

lemma keep_all_fields:
  "fix_winding keep_all_config" "reorient keep_all_config" "normalize_opt keep_all_config"
  "\<not> keep_largest keep_all_config" "close_holes keep_all_config"
  by (simp_all add: keep_all_config_def remove_plane_defaults_def)

lemma default_fields:
  "fix_winding remove_plane_defaults" "reorient remove_plane_defaults"
  "normalize_opt remove_plane_defaults" "keep_largest remove_plane_defaults"
  "close_holes remove_plane_defaults"
  by (simp_all add: remove_plane_defaults_def)

lemma cut_centered_keep_all:
  "cut_and_trim sample_lib keep_all_config centered_mesh 4 =
     Inr (\<lparr>vertices = map fin3 [(0, 1 / 4, 1 / 8), (0, - 1 / 4, - 1 / 8)], faces = []\<rparr>,
          ((Fin 1, Fin 0, Fin 0), (Fin 0, Fin 0, Fin (- 1)), (Fin 0, Fin 1, Fin 0)))"
  by (simp add: cut_and_trim_def fit_centered pn_sample sl_sample cull_centered_low centered_len
        rot_up_z trim_centered_narrow remove_plane_defaults_def keep_all_config_def vadd_def
        vscale_def Let_def del: to_point_normal.simps)

lemma turn_remnant:
  "\<lparr>vertices = map (\<lambda>v. vecmat v
       ((Fin 1, Fin 0, Fin 0), (Fin 0, Fin 0, Fin (- 1)), (Fin 0, Fin 1, Fin 0)))
       (map fin3 [(0, 1 / 4, 1 / 8), (0, - 1 / 4, - 1 / 8)]), faces = []\<rparr> = remnant_mesh"
  by (simp add: remnant_mesh_def fin3_def vecmat_def col0_def col1_def col2_def dot_def)

lemma clean_centered_keep_all:
  "clean_normalized sample_lib keep_all_config centered_mesh 4 t s = Inr remnant_mesh"
  using turn_remnant
  by (simp add: clean_normalized_def cut_centered_keep_all component_stage_def close_stage_def
        reorient_stage_def denormalize_stage_def keep_all_fields sample_lib_fields)

lemma run_centered_keep_all:
  "remove_plane sample_lib keep_all_config [centered_mesh] 0 = (Inr 1, [centered_mesh, remnant_mesh])"
  by (simp add: remove_plane_def normalize_centered centered_len clean_centered_keep_all
        keep_all_fields sample_lib_fields)

lemma run_centered_default:
  "remove_plane sample_lib remove_plane_defaults [centered_mesh] 0 = (Inl ValueError, [centered_mesh])"
  by (simp add: remove_plane_def normalize_centered centered_len clean_normalized_def
        cut_centered_default component_stage_def select_largest_def default_fields sample_lib_fields)

text \<open>A run whose trimmed mesh has no face: without \<open>keep_largest\<close> it returns a
  mesh; with the defaults it ends in \<open>ValueError\<close>.\<close>

theorem empty_mesh_counterexample:
  "cut_and_trim sample_lib keep_all_config centered_mesh 4 =
     Inr (\<lparr>vertices = map fin3 [(0, 1 / 4, 1 / 8), (0, - 1 / 4, - 1 / 8)], faces = []\<rparr>,
          ((Fin 1, Fin 0, Fin 0), (Fin 0, Fin 0, Fin (- 1)), (Fin 0, Fin 1, Fin 0)))
   \<and> remove_plane sample_lib keep_all_config [centered_mesh] 0 = (Inr 1, [centered_mesh, remnant_mesh])
   \<and> faces remnant_mesh = []
   \<and> remove_plane sample_lib remove_plane_defaults [centered_mesh] 0
        = (Inl ValueError, [centered_mesh])"
  by (simp add: cut_centered_keep_all run_centered_keep_all run_centered_default remnant_mesh_def)

text \<open>
  Claim C4, as the code has it.  After a trim that succeeded: when \<open>keep_largest\<close> is
  set and the partition of the trimmed mesh has no component, the component
  selection fails with numpy's \<open>ValueError\<close> (the \<open>argmax\<close> of an empty sequence), which
  ends the run and reaches the caller; when \<open>keep_largest\<close> is not set the stage is
  skipped and the trimmed mesh goes on as it is, with no error.
\<close>

theorem component_stage_empty:
  assumes fw: "(if fix_winding cfg then trimesh_fix_winding l (st ! r) else Inr (st ! r)) = Inr m0"
    and nm: "normalize_mesh m0 = Inr (m1, t, s)"
    and ct: "cut_and_trim l cfg m1 (length (vertices m0)) = Inr (trimmed, rot_m)"
  shows "(keep_largest cfg \<and> trimesh_split l trimmed = Inr [] \<longrightarrow>
            component_stage l cfg trimmed = Inl ValueError
          \<and> remove_plane l cfg st r = (Inl ValueError, st[r := m1]))
       \<and> (\<not> keep_largest cfg \<longrightarrow> component_stage l cfg trimmed = Inr trimmed)"
proof -
  have a: "component_stage l cfg trimmed = Inl ValueError"
    if "keep_largest cfg" "trimesh_split l trimmed = Inr []"
    using that by (simp add: component_stage_def select_largest_def)
  have b: "remove_plane l cfg st r = (Inl ValueError, st[r := m1])"
    if "keep_largest cfg" "trimesh_split l trimmed = Inr []"
    unfolding remove_plane_after_normalize [OF fw nm] clean_normalized_def
    using a [OF that] by (simp add: ct)
  have c: "\<not> keep_largest cfg \<longrightarrow> component_stage l cfg trimmed = Inr trimmed"
    by (simp add: component_stage_def)
  show ?thesis using a b c by blast
qed

theorem component_stage_empty_witness:
  "(if fix_winding remove_plane_defaults then trimesh_fix_winding sample_lib ([centered_mesh] ! 0)
      else Inr ([centered_mesh] ! 0)) = Inr centered_mesh
   \<and> normalize_mesh centered_mesh = Inr (centered_mesh, (Fin 0, Fin 0, Fin 0), Fin 1)
   \<and> cut_and_trim sample_lib remove_plane_defaults centered_mesh (length (vertices centered_mesh))
        = Inr (\<lparr>vertices = map fin3 [(0, 1 / 4, 1 / 8), (0, - 1 / 4, - 1 / 8)], faces = []\<rparr>,
          ((Fin 1, Fin 0, Fin 0), (Fin 0, Fin 0, Fin (- 1)), (Fin 0, Fin 1, Fin 0)))
   \<and> keep_largest remove_plane_defaults
   \<and> trimesh_split sample_lib \<lparr>vertices = map fin3 [(0, 1 / 4, 1 / 8), (0, - 1 / 4, - 1 / 8)], faces = []\<rparr>
        = Inr []
   \<and> remove_plane sample_lib remove_plane_defaults [centered_mesh] 0
        = (Inl ValueError, [centered_mesh])"
proof -
  have fw: "(if fix_winding remove_plane_defaults
      then trimesh_fix_winding sample_lib ([centered_mesh] ! 0)
      else Inr ([centered_mesh] ! 0)) = Inr centered_mesh"
    by (simp add: default_fields sample_lib_fields)
  have ct: "cut_and_trim sample_lib remove_plane_defaults centered_mesh (length (vertices centered_mesh))
        = Inr (\<lparr>vertices = map fin3 [(0, 1 / 4, 1 / 8), (0, - 1 / 4, - 1 / 8)], faces = []\<rparr>,
          ((Fin 1, Fin 0, Fin 0), (Fin 0, Fin 0, Fin (- 1)), (Fin 0, Fin 1, Fin 0)))"
    by (simp only: centered_len cut_centered_default)
  have sp: "trimesh_split sample_lib
      \<lparr>vertices = map fin3 [(0, 1 / 4, 1 / 8), (0, - 1 / 4, - 1 / 8)], faces = []\<rparr> = Inr []"
    by (simp add: sample_lib_fields)
  have kl: "keep_largest remove_plane_defaults" by (rule default_fields)
  from component_stage_empty [OF fw normalize_centered ct] kl sp
  have "remove_plane sample_lib remove_plane_defaults [centered_mesh] 0
        = (Inl ValueError, [centered_mesh][0 := centered_mesh])" by blast
  then have "remove_plane sample_lib remove_plane_defaults [centered_mesh] 0
        = (Inl ValueError, [centered_mesh])" by simp
  with fw normalize_centered ct kl sp show ?thesis by blast
qed

lemma rmin3_same: "rmin3 v v = v"
  by (cases v) (simp add: rmin3_def)

lemma rmax3_same: "rmax3 v v = v"
  by (cases v) (simp add: rmax3_def)

lemma foldl_vmin_same: "foldl vmin (fin3 v) (replicate k (fin3 v)) = fin3 v"
  by (induction k) (simp_all add: vmin_fin3 rmin3_same)

lemma foldl_vmax_same: "foldl vmax (fin3 v) (replicate k (fin3 v)) = fin3 v"
  by (induction k) (simp_all add: vmax_fin3 rmax3_same)

lemma normalize_identical:
  assumes "vertices m = replicate (Suc k) (fin3 v)"
  shows "normalize_mesh m = Inr (m\<lparr>vertices := replicate (Suc k) (NaN, NaN, NaN)\<rparr>, fin3 v, PInf)"
proof -
  obtain x y z where v: "v = (x, y, z)" by (cases v)
  have mn: "np_min_axis0 (vertices m) = Inr (fin3 v)" by (simp add: assms foldl_vmin_same)
  have mx: "np_max_axis0 (vertices m) = Inr (fin3 v)" by (simp add: assms foldl_vmax_same)
  have sz: "vsub (fin3 v) (fin3 v) = (Fin 0, Fin 0, Fin 0)"
    by (simp add: v fin3_def vsub_def fsub_def)
  have tr: "vadd (vdivs (Fin 0, Fin 0, Fin 0) (Fin 2)) (fin3 v) = fin3 v"
    by (simp add: v fin3_def vadd_def vdivs_def)
  have sc: "fdiv (Fin 1) (np_max3 (Fin 0, Fin 0, Fin 0)) = PInf" by (simp add: np_max3_def)
  have nn: "vscale (Fin 0, Fin 0, Fin 0) PInf = (NaN, NaN, NaN)" by (simp add: vscale_def)
  show ?thesis
    unfolding normalize_mesh_def mn mx
    by (simp add: sz tr sc nn assms Let_def del: replicate.simps)
qed

text \<open>A mesh of one vertex: the normalisation returns, with scale \<open>+inf\<close>.\<close>

theorem degenerate_counterexample:
  "normalize_mesh point_mesh =
     Inr (\<lparr>vertices = [(NaN, NaN, NaN)], faces = []\<rparr>, (Fin 1, Fin 2, Fin 3), PInf)"
  by (rule normalize_point)

text \<open>
  Claim C3, as the code has it.  A mesh with no vertex makes \<open>normalize_mesh\<close> raise
  numpy's \<open>ValueError\<close> (the minimum of an empty array), which \<open>remove_plane\<close> lets
  through to the caller.  A mesh with at least one vertex whose vertices are all the
  same finite point raises nothing: the extent is zero, the division is not
  guarded, the scale returned is \<open>+inf\<close> and every coordinate becomes \<open>nan\<close>.
\<close>

theorem normalize_degenerate:
  "(vertices m = [] \<longrightarrow> normalize_mesh m = Inl ValueError)
   \<and> (vertices m = replicate (Suc k) (fin3 v) \<longrightarrow>
        normalize_mesh m = Inr (m\<lparr>vertices := replicate (Suc k) (NaN, NaN, NaN)\<rparr>, fin3 v, PInf))
   \<and> ((if fix_winding cfg then trimesh_fix_winding l (st ! r) else Inr (st ! r)) = Inr m0
        \<and> vertices m0 = [] \<longrightarrow> remove_plane l cfg st r = (Inl ValueError, st[r := m0]))"
proof -
  have e: "normalize_mesh m' = Inl ValueError" if "vertices m' = []" for m'
    using that by (simp add: normalize_mesh_def)
  have r: "remove_plane l cfg st r = (Inl ValueError, st[r := m0])"
    if "(if fix_winding cfg then trimesh_fix_winding l (st ! r) else Inr (st ! r)) = Inr m0"
      "vertices m0 = []"
    using remove_plane_normalize_fails [OF that(1) e [OF that(2)]] .
  show ?thesis using e normalize_identical r by blast
qed

theorem normalize_degenerate_witness:
  "vertices empty_mesh = [] \<and> normalize_mesh empty_mesh = Inl ValueError
   \<and> vertices point_mesh = replicate (Suc 0) (fin3 (1, 2, 3))
   \<and> normalize_mesh point_mesh
        = Inr (point_mesh\<lparr>vertices := replicate (Suc 0) (NaN, NaN, NaN)\<rparr>, fin3 (1, 2, 3), PInf)
   \<and> (if fix_winding remove_plane_defaults then trimesh_fix_winding sample_lib ([empty_mesh] ! 0)
        else Inr ([empty_mesh] ! 0)) = Inr empty_mesh
   \<and> remove_plane sample_lib remove_plane_defaults [empty_mesh] 0 = (Inl ValueError, [empty_mesh])"
proof -
  have a: "vertices empty_mesh = []" by (simp add: empty_mesh_def)
  have b: "vertices point_mesh = replicate (Suc 0) (fin3 (1, 2, 3))" by (simp add: point_mesh_def)
  have c: "(if fix_winding remove_plane_defaults then trimesh_fix_winding sample_lib ([empty_mesh] ! 0)
        else Inr ([empty_mesh] ! 0)) = Inr empty_mesh"
    by (simp add: default_fields sample_lib_fields)
  note t1 = normalize_degenerate [of empty_mesh 0 "(1, 2, 3)" remove_plane_defaults sample_lib
      "[empty_mesh]" 0 empty_mesh]
  note t2 = normalize_degenerate [of point_mesh 0 "(1, 2, 3)" remove_plane_defaults sample_lib
      "[empty_mesh]" 0 empty_mesh]
  from t1 a have 1: "normalize_mesh empty_mesh = Inl ValueError" by blast
  from t2 b have 2: "normalize_mesh point_mesh
        = Inr (point_mesh\<lparr>vertices := replicate (Suc 0) (NaN, NaN, NaN)\<rparr>, fin3 (1, 2, 3), PInf)"
    by blast
  from t1 a c have "remove_plane sample_lib remove_plane_defaults [empty_mesh] 0
      = (Inl ValueError, [empty_mesh][0 := empty_mesh])" by blast
  then have 3: "remove_plane sample_lib remove_plane_defaults [empty_mesh] 0
      = (Inl ValueError, [empty_mesh])" by simp
  show ?thesis using a b c 1 2 3 by blast
qed

text \<open>Two runs that apply different translations and return the same value.\<close>

theorem provenance_counterexample:
  "remove_plane sample_lib wide_config [centered_mesh] 0 = (Inr 1, [centered_mesh, turned_mesh])
   \<and> remove_plane sample_lib wide_config [shifted_mesh] 0 = (Inr 1, [centered_mesh, turned_mesh])
   \<and> normalize_mesh centered_mesh = Inr (centered_mesh, (Fin 0, Fin 0, Fin 0), Fin 1)
   \<and> normalize_mesh shifted_mesh = Inr (centered_mesh, (Fin 10, Fin 0, Fin 0), Fin 1)"
  by (simp add: run_centered_wide run_shifted_wide normalize_centered normalize_shifted)

lemma clean_normalized_kept:
  "normalize_opt cfg \<Longrightarrow> clean_normalized l cfg m k t s = clean_normalized l cfg m k t' s'"
  by (simp add: clean_normalized_def denormalize_stage_def split: sum.splits prod.splits)

text \<open>A mesh already centred in the unit cube holds the same coordinates after the
  call.\<close>

theorem unchanged_input_counterexample:
  "remove_plane sample_lib wide_config [centered_mesh] 0 = (Inr 1, [centered_mesh, turned_mesh])
   \<and> vertices ([centered_mesh, turned_mesh] ! 0) = vertices ([centered_mesh] ! 0)
   \<and> faces ([centered_mesh, turned_mesh] ! 0) = faces ([centered_mesh] ! 0)"
  by (simp add: run_centered_wide)

lemma remove_plane_trace:
  assumes "remove_plane l cfg st r = (Inr r', st')"
  shows "\<exists>m0 m1 t s rot_m sel.
      pipeline_trace l cfg st r m0 m1 t s rot_m sel
    \<and> close_stage l cfg
         (sel\<lparr>vertices :=
            (if normalize_opt cfg then reorient_stage cfg rot_m (vertices sel)
             else undo_normalization (reorient_stage cfg rot_m (vertices sel)) t s)\<rparr>)
        = Inr (st' ! r')
    \<and> clean_normalized l cfg m1 (length (vertices m0)) t s = Inr (st' ! r')
    \<and> r' = length st \<and> st' = st[r := m1] @ [st' ! r']"
proof -
  from remove_plane_success [OF assms] obtain m0 m1 t s new_mesh where
    fw: "(if fix_winding cfg then trimesh_fix_winding l (st ! r) else Inr (st ! r)) = Inr m0" and
    nm: "normalize_mesh m0 = Inr (m1, t, s)" and
    cl: "clean_normalized l cfg m1 (length (vertices m0)) t s = Inr new_mesh" and
    r': "r' = length st" and st': "st' = st[r := m1] @ [new_mesh]"
    by blast
  have nth: "st' ! r' = new_mesh" by (simp add: r' st' nth_append)
  from cl obtain trimmed rot_m sel where
    ct: "cut_and_trim l cfg m1 (length (vertices m0)) = Inr (trimmed, rot_m)" and
    cs: "component_stage l cfg trimmed = Inr sel" and
    fin: "close_stage l cfg
            (sel\<lparr>vertices := denormalize_stage cfg t s (reorient_stage cfg rot_m (vertices sel))\<rparr>)
          = Inr new_mesh"
    unfolding clean_normalized_def by (auto split: sum.splits prod.splits)
  have dn: "denormalize_stage cfg t s (reorient_stage cfg rot_m (vertices sel)) =
      (if normalize_opt cfg then reorient_stage cfg rot_m (vertices sel)
       else undo_normalization (reorient_stage cfg rot_m (vertices sel)) t s)"
    by (simp add: denormalize_stage_def)
  have tr: "pipeline_trace l cfg st r m0 m1 t s rot_m sel"
    unfolding pipeline_trace_def using fw nm ct cs by blast
  show ?thesis
  proof (intro exI conjI)
    show "pipeline_trace l cfg st r m0 m1 t s rot_m sel" by (rule tr)
    show "close_stage l cfg
         (sel\<lparr>vertices :=
            (if normalize_opt cfg then reorient_stage cfg rot_m (vertices sel)
             else undo_normalization (reorient_stage cfg rot_m (vertices sel)) t s)\<rparr>)
        = Inr (st' ! r')"
      using fin by (simp only: dn nth)
    show "clean_normalized l cfg m1 (length (vertices m0)) t s = Inr (st' ! r')"
      by (simp only: cl nth)
    show "r' = length st" by (rule r')
    show "st' = st[r := m1] @ [st' ! r']" by (simp only: nth) (rule st')
  qed
qed

lemma undo_config_fields:
  "fix_winding undo_config" "reorient undo_config" "\<not> normalize_opt undo_config"
  "keep_largest undo_config" "close_holes undo_config"
  by (simp_all add: undo_config_def wide_config_def remove_plane_defaults_def)

lemma cut_centered_undo:
  "cut_and_trim sample_lib undo_config centered_mesh 4 =
     Inr (centered_mesh,
          ((Fin 1, Fin 0, Fin 0), (Fin 0, Fin 0, Fin (- 1)), (Fin 0, Fin 1, Fin 0)))"
  by (simp add: cut_and_trim_def fit_centered pn_sample sl_sample cull_centered_low centered_len
        rot_up_z trim_centered_wide remove_plane_defaults_def wide_config_def undo_config_def
        vadd_def vscale_def Let_def del: to_point_normal.simps)

lemma restore_turned:
  "centered_mesh\<lparr>vertices := undo_normalization (map (\<lambda>v. vecmat v
       ((Fin 1, Fin 0, Fin 0), (Fin 0, Fin 0, Fin (- 1)), (Fin 0, Fin 1, Fin 0)))
       (vertices centered_mesh)) (Fin 10, Fin 0, Fin 0) (Fin 1)\<rparr> = restored_mesh"
  by (simp add: centered_mesh_def restored_mesh_def undo_normalization_def fin3_def vecmat_def
        col0_def col1_def col2_def dot_def vadd_def vscale_def)

lemma clean_shifted_undo:
  "clean_normalized sample_lib undo_config centered_mesh 4 (Fin 10, Fin 0, Fin 0) (Fin 1)
     = Inr restored_mesh"
  by (simp add: clean_normalized_def cut_centered_undo component_stage_def close_stage_def
        reorient_stage_def denormalize_stage_def undo_config_fields sample_lib_fields
        select_largest_def centered_faces restore_turned)

lemma run_shifted_undo:
  "remove_plane sample_lib undo_config [shifted_mesh] 0 = (Inr 1, [centered_mesh, restored_mesh])"
proof -
  have "length (vertices shifted_mesh) = 4" by (simp add: shifted_mesh_def)
  then show ?thesis
    by (simp add: remove_plane_def normalize_shifted clean_shifted_undo
        undo_config_fields sample_lib_fields)
qed

lemma normalize_scan:
  "normalize_mesh scan_mesh = Inr (scan_norm, (Fin 1, Fin (1 / 4), Fin 0), Fin (1 / 2))"
  by (simp add: normalize_mesh_def scan_mesh_def scan_norm_def vec_defs Let_def)

lemma scan_len: "length (vertices scan_mesh) = 5"
  by (simp add: scan_mesh_def)

lemma fit_scan:
  "pyrsc_plane_fit sample_lib (vertices scan_norm) th = Inr [Fin 0, Fin 0, Fin 1, Fin (1 / 4)]"
  by (simp add: sample_lib_def scan_norm_def)

lemma cull_scan_low:
  "z \<le> 0 \<Longrightarrow> cull_slicer scan_norm (Fin 0, Fin 0, Fin 1) (Fin 0, Fin 0, Fin z) = Inr scan_norm"
  by (simp add: cull_slicer_def scan_norm_def inside_def vec_defs Let_def)

lemma scan_norm_len: "length (vertices scan_norm) = 5"
  by (simp add: scan_norm_def)

lemma trim_scan:
  "discard_extraneous cull_slicer scan_norm (Fin (3 / 10)) = Inr scan_cut"
  by (simp add: discard_extraneous_def box_planes_def cull_slicer_def scan_norm_def scan_cut_def
        inside_def vec_defs Let_def)

lemma cut_scan:
  assumes "plane_offset cfg = Fin (1 / 200)" "trim_amount cfg = Fin (3 / 5)"
  shows "cut_and_trim sample_lib cfg scan_norm 5 =
     Inr (scan_cut, ((Fin 1, Fin 0, Fin 0), (Fin 0, Fin 0, Fin (- 1)), (Fin 0, Fin 1, Fin 0)))"
  by (simp add: cut_and_trim_def fit_scan pn_sample sl_sample cull_scan_low scan_norm_len
        rot_up_z trim_scan assms vadd_def vscale_def Let_def del: to_point_normal.simps)

lemma scan_cut_faces: "faces scan_cut \<noteq> []"
  by (simp add: scan_cut_def)

lemma turn_scan:
  "scan_cut\<lparr>vertices := map (\<lambda>v. vecmat v
       ((Fin 1, Fin 0, Fin 0), (Fin 0, Fin 0, Fin (- 1)), (Fin 0, Fin 1, Fin 0)))
       (vertices scan_cut)\<rparr> = scan_upright"
  by (simp add: scan_cut_def scan_upright_def fin3_def vecmat_def col0_def col1_def col2_def
        dot_def)

lemma restore_scan:
  "scan_cut\<lparr>vertices := undo_normalization (map (\<lambda>v. vecmat v
       ((Fin 1, Fin 0, Fin 0), (Fin 0, Fin 0, Fin (- 1)), (Fin 0, Fin 1, Fin 0)))
       (vertices scan_cut)) (Fin 1, Fin (1 / 4), Fin 0) (Fin (1 / 2))\<rparr> = scan_restored"
  by (simp add: scan_cut_def scan_restored_def undo_normalization_def fin3_def vecmat_def
        col0_def col1_def col2_def dot_def vadd_def vscale_def)

lemma cli_default_fields:
  "fix_winding (config_of_args parser_defaults)" "reorient (config_of_args parser_defaults)"
  "\<not> normalize_opt (config_of_args parser_defaults)"
  "keep_largest (config_of_args parser_defaults)" "close_holes (config_of_args parser_defaults)"
  "plane_offset (config_of_args parser_defaults) = Fin (1 / 200)"
  "trim_amount (config_of_args parser_defaults) = Fin (3 / 5)"
  by (simp_all add: config_of_args_def parser_defaults_def)

lemma default_numbers:
  "plane_offset remove_plane_defaults = Fin (1 / 200)"
  "trim_amount remove_plane_defaults = Fin (3 / 5)"
  by (simp_all add: remove_plane_defaults_def)

lemma run_scan_default:
  "remove_plane sample_lib remove_plane_defaults [scan_mesh] 0 = (Inr 1, [scan_norm, scan_upright])"
  by (simp add: remove_plane_def normalize_scan scan_len clean_normalized_def
        cut_scan [OF default_numbers] component_stage_def close_stage_def reorient_stage_def
        denormalize_stage_def default_fields sample_lib_fields select_largest_def scan_cut_faces
        turn_scan)

lemma run_scan_cli:
  "remove_plane sample_lib (config_of_args parser_defaults) [scan_mesh] 0
     = (Inr 1, [scan_norm, scan_restored])"
  by (simp add: remove_plane_def normalize_scan scan_len clean_normalized_def
        cut_scan [OF cli_default_fields(6,7)] component_stage_def close_stage_def
        reorient_stage_def denormalize_stage_def cli_default_fields(1-5) sample_lib_fields
        select_largest_def scan_cut_faces restore_scan)

text \<open>
  Claim C7, as the code has it.  A successful run returns the final mesh alone, a new
  object at the end of the store; translation and scale are not part of what is
  returned.  They are used inside the run: the mesh returned is what the closing
  stage makes of the selected component with its vertices reoriented and, when
  \<open>normalize\<close> is false, multiplied by \<open>1/scale\<close> and moved by the translation; with
  \<open>normalize\<close> true the vertices stay as reoriented and the mesh returned does not
  depend on translation and scale.
\<close>

theorem remove_plane_returns_mesh:
  assumes "remove_plane l cfg st r = (Inr r', st')"
  shows "r' = length st
     \<and> (\<exists>m0 m1 t s rot_m sel.
           pipeline_trace l cfg st r m0 m1 t s rot_m sel
         \<and> close_stage l cfg
              (sel\<lparr>vertices :=
                 (if normalize_opt cfg then reorient_stage cfg rot_m (vertices sel)
                  else undo_normalization (reorient_stage cfg rot_m (vertices sel)) t s)\<rparr>)
             = Inr (st' ! r')
         \<and> clean_normalized l cfg m1 (length (vertices m0)) t s = Inr (st' ! r')
         \<and> st' = st[r := m1] @ [st' ! r']
         \<and> (normalize_opt cfg \<longrightarrow>
               (\<forall>t' s'. clean_normalized l cfg m1 (length (vertices m0)) t' s' = Inr (st' ! r'))))"
proof -
  from remove_plane_trace [OF assms] obtain m0 m1 t s rot_m sel where
    tr: "pipeline_trace l cfg st r m0 m1 t s rot_m sel" and
    fin: "close_stage l cfg
         (sel\<lparr>vertices :=
            (if normalize_opt cfg then reorient_stage cfg rot_m (vertices sel)
             else undo_normalization (reorient_stage cfg rot_m (vertices sel)) t s)\<rparr>)
        = Inr (st' ! r')" and
    cl: "clean_normalized l cfg m1 (length (vertices m0)) t s = Inr (st' ! r')" and
    r': "r' = length st" and st': "st' = st[r := m1] @ [st' ! r']"
    by blast
  have ind: "normalize_opt cfg \<longrightarrow>
      (\<forall>t' s'. clean_normalized l cfg m1 (length (vertices m0)) t' s' = Inr (st' ! r'))"
    using clean_normalized_kept [of cfg l m1 "length (vertices m0)"] cl by metis
  show ?thesis using tr fin cl r' st' ind by blast
qed

theorem remove_plane_returns_mesh_witness:
  "remove_plane sample_lib undo_config [shifted_mesh] 0 = (Inr 1, [centered_mesh, restored_mesh])
   \<and> \<not> normalize_opt undo_config
   \<and> (\<exists>m0 m1 t s rot_m sel.
           pipeline_trace sample_lib undo_config [shifted_mesh] 0 m0 m1 t s rot_m sel
         \<and> close_stage sample_lib undo_config
              (sel\<lparr>vertices :=
                 undo_normalization (reorient_stage undo_config rot_m (vertices sel)) t s\<rparr>)
             = Inr restored_mesh)
   \<and> remove_plane sample_lib wide_config [shifted_mesh] 0 = (Inr 1, [centered_mesh, turned_mesh])
   \<and> normalize_opt wide_config
   \<and> (\<exists>m0 m1 t s. normalize_mesh m0 = Inr (m1, t, s)
         \<and> (\<forall>t' s'. clean_normalized sample_lib wide_config m1 (length (vertices m0)) t' s'
               = Inr turned_mesh))"
proof -
  have n1: "[centered_mesh, restored_mesh] ! 1 = restored_mesh" by simp
  have n2: "[centered_mesh, turned_mesh] ! 1 = turned_mesh" by simp
  from remove_plane_returns_mesh [OF run_shifted_undo] undo_config_fields(3)
  have a: "\<exists>m0 m1 t s rot_m sel.
           pipeline_trace sample_lib undo_config [shifted_mesh] 0 m0 m1 t s rot_m sel
         \<and> close_stage sample_lib undo_config
              (sel\<lparr>vertices :=
                 undo_normalization (reorient_stage undo_config rot_m (vertices sel)) t s\<rparr>)
             = Inr restored_mesh"
    unfolding n1 by (simp only: if_False) blast
  from remove_plane_returns_mesh [OF run_shifted_wide] wide_config_fields(3)
  have b: "\<exists>m0 m1 t s. normalize_mesh m0 = Inr (m1, t, s)
         \<and> (\<forall>t' s'. clean_normalized sample_lib wide_config m1 (length (vertices m0)) t' s'
               = Inr turned_mesh)"
    unfolding n2 pipeline_trace_def by blast
  show ?thesis
    using run_shifted_undo undo_config_fields(3) a run_shifted_wide wide_config_fields(3) b
    by blast
qed

text \<open>The default of \<open>normalize\<close> in \<open>remove_plane\<close> is not false: a call with the
  defaults returns the mesh in normalised space, not the mesh a call with
  \<open>normalize\<close> false returns.\<close>

theorem normalize_default_counterexample:
  "\<not> (normalize_opt remove_plane_defaults = False)
   \<and> remove_plane sample_lib remove_plane_defaults [scan_mesh] 0 = (Inr 1, [scan_norm, scan_upright])
   \<and> normalize_mesh scan_mesh = Inr (scan_norm, (Fin 1, Fin (1 / 4), Fin 0), Fin (1 / 2))
   \<and> vertices scan_upright
        \<noteq> undo_normalization (vertices scan_upright) (Fin 1, Fin (1 / 4), Fin 0) (Fin (1 / 2))
   \<and> remove_plane sample_lib (remove_plane_defaults\<lparr>normalize_opt := False\<rparr>) [scan_mesh] 0
        = (Inr 1, [scan_norm, scan_restored])
   \<and> scan_upright \<noteq> scan_restored"
proof -
  have e: "remove_plane_defaults\<lparr>normalize_opt := False\<rparr> = config_of_args parser_defaults"
    by (simp add: remove_plane_defaults_def config_of_args_def parser_defaults_def)
  show ?thesis
    unfolding e
    by (simp add: run_scan_default run_scan_cli normalize_scan default_fields scan_upright_def
          scan_restored_def undo_normalization_def fin3_def vadd_def vscale_def)
qed

text \<open>
  Claim C8, as the code has it.  The parameter \<open>normalize\<close> of \<open>remove_plane\<close> defaults to
  true: a successful call with the defaults hands the reoriented vertices to the
  closing stage as they are, in normalised space.  The command line passes the flag
  \<open>--normalize\<close>, which defaults to false: a successful run with the defaults of the
  parser multiplies the reoriented vertices by \<open>1/scale\<close> and adds the translation
  first.  For every configuration the normalisation is undone exactly when
  \<open>normalize\<close> is false.
\<close>

theorem normalize_defaults:
  "normalize_opt remove_plane_defaults
   \<and> \<not> normalize_opt (config_of_args parser_defaults)
   \<and> normalize_opt (config_of_args (parser_defaults\<lparr>arg_normalize := True\<rparr>))
   \<and> (remove_plane l remove_plane_defaults st r = (Inr r', st') \<longrightarrow>
        (\<exists>m0 m1 t s rot_m sel.
            pipeline_trace l remove_plane_defaults st r m0 m1 t s rot_m sel
          \<and> close_stage l remove_plane_defaults
               (sel\<lparr>vertices := reorient_stage remove_plane_defaults rot_m (vertices sel)\<rparr>)
              = Inr (st' ! r')))
   \<and> (remove_plane l (config_of_args parser_defaults) st r = (Inr r', st') \<longrightarrow>
        (\<exists>m0 m1 t s rot_m sel.
            pipeline_trace l (config_of_args parser_defaults) st r m0 m1 t s rot_m sel
          \<and> close_stage l (config_of_args parser_defaults)
               (sel\<lparr>vertices := undo_normalization
                    (reorient_stage (config_of_args parser_defaults) rot_m (vertices sel)) t s\<rparr>)
              = Inr (st' ! r')))
   \<and> (remove_plane l cfg st r = (Inr r', st') \<longrightarrow>
        (\<exists>m0 m1 t s rot_m sel.
            pipeline_trace l cfg st r m0 m1 t s rot_m sel
          \<and> close_stage l cfg
               (sel\<lparr>vertices :=
                  (if normalize_opt cfg then reorient_stage cfg rot_m (vertices sel)
                   else undo_normalization (reorient_stage cfg rot_m (vertices sel)) t s)\<rparr>)
              = Inr (st' ! r')))"
proof -
  have gen: "\<exists>m0 m1 t s rot_m sel.
            pipeline_trace l c st r m0 m1 t s rot_m sel
          \<and> close_stage l c
               (sel\<lparr>vertices :=
                  (if normalize_opt c then reorient_stage c rot_m (vertices sel)
                   else undo_normalization (reorient_stage c rot_m (vertices sel)) t s)\<rparr>)
              = Inr (st' ! r')"
    if "remove_plane l c st r = (Inr r', st')" for c
    using remove_plane_trace [OF that] by blast
  have d: "normalize_opt remove_plane_defaults" by (rule default_fields)
  have c: "\<not> normalize_opt (config_of_args parser_defaults)" by (rule cli_default_fields)
  have c': "normalize_opt (config_of_args (parser_defaults\<lparr>arg_normalize := True\<rparr>))"
    by (simp add: config_of_args_def)
  have gd: "remove_plane l remove_plane_defaults st r = (Inr r', st') \<longrightarrow>
        (\<exists>m0 m1 t s rot_m sel.
            pipeline_trace l remove_plane_defaults st r m0 m1 t s rot_m sel
          \<and> close_stage l remove_plane_defaults
               (sel\<lparr>vertices := reorient_stage remove_plane_defaults rot_m (vertices sel)\<rparr>)
              = Inr (st' ! r'))"
    using gen [of remove_plane_defaults] d by simp
  have gc: "remove_plane l (config_of_args parser_defaults) st r = (Inr r', st') \<longrightarrow>
        (\<exists>m0 m1 t s rot_m sel.
            pipeline_trace l (config_of_args parser_defaults) st r m0 m1 t s rot_m sel
          \<and> close_stage l (config_of_args parser_defaults)
               (sel\<lparr>vertices := undo_normalization
                    (reorient_stage (config_of_args parser_defaults) rot_m (vertices sel)) t s\<rparr>)
              = Inr (st' ! r'))"
    using gen [of "config_of_args parser_defaults"] c by simp
  show ?thesis using d c c' gd gc gen [of cfg] by blast
qed

theorem normalize_defaults_witness:
  "remove_plane sample_lib remove_plane_defaults [scan_mesh] 0 = (Inr 1, [scan_norm, scan_upright])
   \<and> (\<exists>m0 m1 t s rot_m sel.
            pipeline_trace sample_lib remove_plane_defaults [scan_mesh] 0 m0 m1 t s rot_m sel
          \<and> close_stage sample_lib remove_plane_defaults
               (sel\<lparr>vertices := reorient_stage remove_plane_defaults rot_m (vertices sel)\<rparr>)
              = Inr scan_upright)
   \<and> remove_plane sample_lib (config_of_args parser_defaults) [scan_mesh] 0
        = (Inr 1, [scan_norm, scan_restored])
   \<and> (\<exists>m0 m1 t s rot_m sel.
            pipeline_trace sample_lib (config_of_args parser_defaults) [scan_mesh] 0 m0 m1 t s rot_m sel
          \<and> close_stage sample_lib (config_of_args parser_defaults)
               (sel\<lparr>vertices := undo_normalization
                    (reorient_stage (config_of_args parser_defaults) rot_m (vertices sel)) t s\<rparr>)
              = Inr scan_restored)"
proof -
  have n1: "[scan_norm, scan_upright] ! 1 = scan_upright" by simp
  have n2: "[scan_norm, scan_restored] ! 1 = scan_restored" by simp
  note t1 = normalize_defaults [of sample_lib "[scan_mesh]" 0 1 "[scan_norm, scan_upright]",
      unfolded n1]
  note t2 = normalize_defaults [of sample_lib "[scan_mesh]" 0 1 "[scan_norm, scan_restored]",
      unfolded n2]
  from t1 run_scan_default have a: "\<exists>m0 m1 t s rot_m sel.
            pipeline_trace sample_lib remove_plane_defaults [scan_mesh] 0 m0 m1 t s rot_m sel
          \<and> close_stage sample_lib remove_plane_defaults
               (sel\<lparr>vertices := reorient_stage remove_plane_defaults rot_m (vertices sel)\<rparr>)
              = Inr scan_upright" by blast
  from t2 run_scan_cli have b: "\<exists>m0 m1 t s rot_m sel.
            pipeline_trace sample_lib (config_of_args parser_defaults) [scan_mesh] 0 m0 m1 t s rot_m sel
          \<and> close_stage sample_lib (config_of_args parser_defaults)
               (sel\<lparr>vertices := undo_normalization
                    (reorient_stage (config_of_args parser_defaults) rot_m (vertices sel)) t s\<rparr>)
              = Inr scan_restored" by blast
  show ?thesis using run_scan_default a run_scan_cli b by blast
qed

lemma normalize_mesh_values:
  assumes "normalize_mesh m0 = Inr (m1, t, s)"
  shows "\<exists>mesh_min mesh_max.
      np_min_axis0 (vertices m0) = Inr mesh_min \<and> np_max_axis0 (vertices m0) = Inr mesh_max
    \<and> t = vadd (vdivs (vsub mesh_max mesh_min) (Fin 2)) mesh_min
    \<and> s = fdiv (Fin 1) (np_max3 (vsub mesh_max mesh_min))"
  using assms unfolding normalize_mesh_def
  by (auto simp: Let_def split: sum.splits)

lemma keep_vertex: "is_fin3 v \<Longrightarrow> vscale (vsub v (Fin 0, Fin 0, Fin 0)) (Fin 1) = v"
  by (cases v) (auto simp: is_fin3_def vscale_def vsub_def fsub_def elim!: is_fin.elims)

text \<open>
  Claim C9, as the code has it.  In every call in which the winding fix and the
  normalisation raise nothing, the caller's mesh object is overwritten in place: after
  the call, whatever its outcome, it holds the faces the winding fix left and, for
  each vertex \<open>v\<close>, the value \<open>(v - translation) \<cdot> scale\<close>, with the translation the centre
  of the bounding box and the scale the reciprocal of its largest extent; the other
  objects are untouched, and the mesh returned is a new object.  When the translation
  is zero and the scale is one (a mesh already centred with largest extent one) the
  values written are the old coordinates.
\<close>

theorem input_mesh_overwritten:
  assumes r: "r < length st"
    and fw: "(if fix_winding cfg then trimesh_fix_winding l (st ! r) else Inr (st ! r)) = Inr m0"
    and nm: "normalize_mesh m0 = Inr (m1, t, s)"
  shows "snd (remove_plane l cfg st r) ! r = m1
     \<and> (\<exists>mesh_min mesh_max.
           np_min_axis0 (vertices m0) = Inr mesh_min \<and> np_max_axis0 (vertices m0) = Inr mesh_max
         \<and> t = vadd (vdivs (vsub mesh_max mesh_min) (Fin 2)) mesh_min
         \<and> s = fdiv (Fin 1) (np_max3 (vsub mesh_max mesh_min)))
     \<and> vertices m1 = map (\<lambda>v. vscale (vsub v t) s) (vertices m0) \<and> faces m1 = faces m0
     \<and> (\<forall>i<length st. i \<noteq> r \<longrightarrow> snd (remove_plane l cfg st r) ! i = st ! i)
     \<and> (\<forall>r'. fst (remove_plane l cfg st r) = Inr r' \<longrightarrow> r' = length st \<and> r' \<noteq> r)
     \<and> (t = (Fin 0, Fin 0, Fin 0) \<and> s = Fin 1 \<and> (\<forall>v \<in> set (vertices m0). is_fin3 v)
          \<longrightarrow> vertices m1 = vertices m0)"
proof -
  note rp = remove_plane_after_normalize [OF fw nm]
  have a: "snd (remove_plane l cfg st r) ! r = m1"
    unfolding rp using r by (simp add: nth_append split: sum.splits)
  have b: "\<forall>i<length st. i \<noteq> r \<longrightarrow> snd (remove_plane l cfg st r) ! i = st ! i"
    unfolding rp by (simp add: nth_append split: sum.splits)
  have c: "\<forall>r'. fst (remove_plane l cfg st r) = Inr r' \<longrightarrow> r' = length st \<and> r' \<noteq> r"
    unfolding rp using r by (auto split: sum.splits)
  note sh = normalize_mesh_shape [OF nm]
  have k: "vertices m1 = vertices m0"
    if "t = (Fin 0, Fin 0, Fin 0)" "s = Fin 1" "\<forall>v \<in> set (vertices m0). is_fin3 v"
  proof -
    have "map (\<lambda>v. vscale (vsub v (Fin 0, Fin 0, Fin 0)) (Fin 1)) (vertices m0) = vertices m0"
      using that(3) by (intro map_idI) (simp add: keep_vertex)
    then show ?thesis using sh that(1,2) by simp
  qed
  show ?thesis using a b c sh normalize_mesh_values [OF nm] k by blast
qed

theorem input_mesh_overwritten_witness:
  "(0::nat) < length [shifted_mesh]
   \<and> (if fix_winding wide_config then trimesh_fix_winding sample_lib ([shifted_mesh] ! 0)
       else Inr ([shifted_mesh] ! 0)) = Inr shifted_mesh
   \<and> normalize_mesh shifted_mesh = Inr (centered_mesh, (Fin 10, Fin 0, Fin 0), Fin 1)
   \<and> snd (remove_plane sample_lib wide_config [shifted_mesh] 0) ! 0 = centered_mesh
   \<and> vertices centered_mesh
        = map (\<lambda>v. vscale (vsub v (Fin 10, Fin 0, Fin 0)) (Fin 1)) (vertices shifted_mesh)
   \<and> fst (remove_plane sample_lib wide_config [shifted_mesh] 0) = Inr 1
   \<and> vertices centered_mesh \<noteq> vertices shifted_mesh
   \<and> (0::nat) < length [centered_mesh]
   \<and> normalize_mesh centered_mesh = Inr (centered_mesh, (Fin 0, Fin 0, Fin 0), Fin 1)
   \<and> list_all is_fin3 (vertices centered_mesh)
   \<and> snd (remove_plane sample_lib wide_config [centered_mesh] 0) ! 0 = centered_mesh
   \<and> vertices (snd (remove_plane sample_lib wide_config [centered_mesh] 0) ! 0)
        = vertices centered_mesh"
proof -
  have r: "(0::nat) < length [shifted_mesh]" by simp
  have fw: "(if fix_winding wide_config then trimesh_fix_winding sample_lib ([shifted_mesh] ! 0)
       else Inr ([shifted_mesh] ! 0)) = Inr shifted_mesh"
    by (simp add: wide_config_fields sample_lib_fields)
  note th = input_mesh_overwritten [OF r fw normalize_shifted]
  have ne: "vertices centered_mesh \<noteq> vertices shifted_mesh"
    by (simp add: centered_mesh_def shifted_mesh_def fin3_def)
  have f: "fst (remove_plane sample_lib wide_config [shifted_mesh] 0) = Inr 1"
    by (simp add: run_shifted_wide)
  have r2: "(0::nat) < length [centered_mesh]" by simp
  have fw2: "(if fix_winding wide_config then trimesh_fix_winding sample_lib ([centered_mesh] ! 0)
       else Inr ([centered_mesh] ! 0)) = Inr centered_mesh"
    by (simp add: wide_config_fields sample_lib_fields)
  note th2 = input_mesh_overwritten [OF r2 fw2 normalize_centered]
  have fi: "\<forall>v \<in> set (vertices centered_mesh). is_fin3 v"
    by (simp add: centered_mesh_def fin3_def is_fin3_def)
  have fl: "list_all is_fin3 (vertices centered_mesh)"
    using fi by (simp add: list_all_iff)
  have same: "vertices (snd (remove_plane sample_lib wide_config [centered_mesh] 0) ! 0)
        = vertices centered_mesh"
    using th2 fi by simp
  show ?thesis using r fw normalize_shifted th ne f r2 normalize_centered fl th2 same by blast
qed

end
